theory Spec2Isabelle
  imports Main "HOL-Library.Sublist"
begin

text \<open>
  The DNS responder and the HTTP handlers of \<^verbatim>\<open>singularity.go\<close>: the codec of the
  query names, the session store and its sweep, the rebinding strategies, the
  handler of the DNS requests, the handler of the catch-all route and the handler of
  \<^verbatim>\<open>/clientinfo\<close>. A handler is a function from the store (and its request) to its
  result and the new store; a panic is a value of the result.
\<close>

section \<open>Go library functions used by singularity.go\<close>

text \<open>
  Go strings are byte sequences; \<open>string\<close> (a list of 8-bit characters) is the same
  data. The functions of this section are the standard-library functions that
  \<^verbatim>\<open>singularity.go\<close> calls, written out for the arguments the program gives them.
\<close>

subsection \<open>Package strings\<close>

definition HasPrefix :: "string \<Rightarrow> string \<Rightarrow> bool" where
  "HasPrefix s pre = prefix pre s"

definition TrimPrefix :: "string \<Rightarrow> string \<Rightarrow> string" where
  "TrimPrefix s pre = (if HasPrefix s pre then drop (length pre) s else s)"

text \<open>
  \<^verbatim>\<open>strings.Replace(s, old, new, -1)\<close>: every non-overlapping occurrence of \<open>old\<close>,
  leftmost first. For an empty \<open>old\<close> Go inserts \<open>new\<close> before every byte and at the end.
\<close>

fun replace_from :: "string \<Rightarrow> string \<Rightarrow> string \<Rightarrow> string" where
  "replace_from old new [] = []"
| "replace_from old new (c # cs) =
     (if prefix old (c # cs) then new @ replace_from old new (drop (length old - 1) cs)
      else c # replace_from old new cs)"

definition Replace :: "string \<Rightarrow> string \<Rightarrow> string \<Rightarrow> string" where
  "Replace s old new =
     (if old = [] then new @ concat (map (\<lambda>c. c # new) s) else replace_from old new s)"

text \<open>
  \<^verbatim>\<open>strings.Split(s, sep)\<close>: the pieces of \<open>s\<close> between the non-overlapping
  occurrences of \<open>sep\<close>, leftmost first; one piece more than there are occurrences.
  For an empty \<open>sep\<close> Go splits after every byte (of an ASCII string).
\<close>

fun split_from :: "string \<Rightarrow> string \<Rightarrow> string \<Rightarrow> string list" where
  "split_from sep acc [] = [rev acc]"
| "split_from sep acc (c # cs) =
     (if prefix sep (c # cs) then rev acc # split_from sep [] (drop (length sep - 1) cs)
      else split_from sep (c # acc) cs)"

definition Split :: "string \<Rightarrow> string \<Rightarrow> string list" where
  "Split s sep = (if sep = [] then map (\<lambda>c. [c]) s else split_from sep [] s)"

text \<open>\<^verbatim>\<open>strings.Cut(s, sep)\<close>: the text before and after the first \<open>sep\<close>, and whether
  there is one.\<close>

fun cut_from :: "string \<Rightarrow> string \<Rightarrow> string \<Rightarrow> string \<times> string \<times> bool" where
  "cut_from sep acc [] = (if sep = [] then (rev acc, [], True) else (rev acc, [], False))"
| "cut_from sep acc (c # cs) =
     (if prefix sep (c # cs) then (rev acc, drop (length sep) (c # cs), True)
      else cut_from sep (c # acc) cs)"

definition Cut :: "string \<Rightarrow> string \<Rightarrow> string \<times> string \<times> bool" where
  "Cut s sep = cut_from sep [] s"

definition ContainsAny :: "string \<Rightarrow> string \<Rightarrow> bool" where
  "ContainsAny s chars = list_ex (\<lambda>c. c \<in> set chars) s"

text \<open>
  \<^verbatim>\<open>strings.ToLower\<close> on ASCII text. The names the DNS library hands to the handler are
  in presentation format, where every byte outside printable ASCII is written as a
  decimal escape, so they hold ASCII bytes only.
\<close>

definition lower_byte :: "char \<Rightarrow> char" where
  "lower_byte c =
     (let n = (of_char c :: nat) in if 65 \<le> n \<and> n \<le> 90 then char_of (n + 32) else c)"

definition ToLower :: "string \<Rightarrow> string" where
  "ToLower s = map lower_byte s"

subsection \<open>Package encoding/hex\<close>

type_synonym byte = nat

definition fromHexChar :: "char \<Rightarrow> nat option" where
  "fromHexChar c =
     (let n = (of_char c :: nat) in
      if 48 \<le> n \<and> n \<le> 57 then Some (n - 48)
      else if 97 \<le> n \<and> n \<le> 102 then Some (n - 97 + 10)
      else if 65 \<le> n \<and> n \<le> 70 then Some (n - 65 + 10)
      else None)"

text \<open>\<^verbatim>\<open>hex.DecodeString\<close> fails (here: \<open>None\<close>) on a byte that is no hexadecimal digit
  and on an odd length; the caller only tests whether it failed.\<close>

fun DecodeString :: "string \<Rightarrow> byte list option" where
  "DecodeString [] = Some []"
| "DecodeString [c] = None"
| "DecodeString (p # q # cs) =
     (case fromHexChar p of
        None \<Rightarrow> None
      | Some a \<Rightarrow>
         (case fromHexChar q of
            None \<Rightarrow> None
          | Some b \<Rightarrow>
             (case DecodeString cs of
                None \<Rightarrow> None
              | Some bs \<Rightarrow> Some ((a * 16 + b) # bs))))"

subsection \<open>Package net: the type IP\<close>

text \<open>\<^verbatim>\<open>net.IP\<close> is a byte slice of any length; 4 and 16 are the lengths of addresses.\<close>

type_synonym IP = "byte list"

definition v4InV6Prefix :: "byte list" where
  "v4InV6Prefix = [0, 0, 0, 0, 0, 0, 0, 0, 0, 0, 255, 255]"

definition To4 :: "IP \<Rightarrow> IP option" where
  "To4 ip =
     (if length ip = 4 then Some ip
      else if length ip = 16 \<and> take 12 ip = v4InV6Prefix then Some (drop 12 ip)
      else None)"

definition IP_Equal :: "IP \<Rightarrow> IP \<Rightarrow> bool" where
  "IP_Equal ip x =
     (if length ip = length x then ip = x
      else if length ip = 4 \<and> length x = 16 then take 12 x = v4InV6Prefix \<and> ip = drop 12 x
      else if length ip = 16 \<and> length x = 4 then take 12 ip = v4InV6Prefix \<and> drop 12 ip = x
      else False)"

definition hexDigit :: "nat \<Rightarrow> char" where
  "hexDigit d = ''0123456789abcdef'' ! d"

fun itoa :: "nat \<Rightarrow> string" where
  "itoa n = (if n < 10 then [hexDigit n] else itoa (n div 10) @ [hexDigit (n mod 10)])"

fun appendHex :: "nat \<Rightarrow> string" where
  "appendHex n = (if n < 16 then [hexDigit n] else appendHex (n div 16) @ [hexDigit (n mod 16)])"

definition hexString :: "byte list \<Rightarrow> string" where
  "hexString bs = concat (map (\<lambda>b. [hexDigit (b div 16), hexDigit (b mod 16)]) bs)"

definition dotted :: "byte list \<Rightarrow> string" where
  "dotted p = itoa (p ! 0) @ ''.'' @ itoa (p ! 1) @ ''.'' @ itoa (p ! 2) @ ''.'' @ itoa (p ! 3)"

text \<open>The eight 16-bit groups of a 16-byte address.\<close>

fun groups :: "byte list \<Rightarrow> nat list" where
  "groups (a # b # bs) = (a * 256 + b) # groups bs"
| "groups bs = []"

text \<open>The length of the run of zero groups at the head of a list.\<close>

fun zero_run :: "nat list \<Rightarrow> nat" where
  "zero_run (g # gs) = (if g = 0 then Suc (zero_run gs) else 0)"
| "zero_run [] = 0"

text \<open>
  The longest run of zero groups, the first among equals, as (start, end) indices;
  \<open>longest_run i gs best\<close> scans the groups \<open>gs\<close> that start at index \<open>i\<close>, and a run,
  once taken, is skipped together with the group that ends it.
\<close>

fun longest_run :: "nat \<Rightarrow> nat list \<Rightarrow> (nat \<times> nat) option \<Rightarrow> (nat \<times> nat) option" where
  "longest_run i [] best = best"
| "longest_run i (g # gs) best =
     (let n = zero_run (g # gs);
          longer = (case best of None \<Rightarrow> True | Some (e0, e1) \<Rightarrow> n > e1 - e0)
      in if n > 0 \<and> longer then longest_run (i + n + 1) (drop n gs) (Some (i, i + n))
         else longest_run (i + 1) gs best)"

fun join_groups :: "nat list \<Rightarrow> string" where
  "join_groups [] = []"
| "join_groups [g] = appendHex g"
| "join_groups (g # gs) = appendHex g @ '':'' @ join_groups gs"

definition string16 :: "byte list \<Rightarrow> string" where
  "string16 p =
     (let gs = groups p in
      case longest_run 0 gs None of
        None \<Rightarrow> join_groups gs
      | Some (e0, e1) \<Rightarrow>
          if e1 - e0 < 2 then join_groups gs
          else join_groups (take e0 gs) @ ''::'' @ join_groups (drop e1 gs))"

definition IP_String :: "IP \<Rightarrow> string" where
  "IP_String ip =
     (if length ip = 0 then ''<nil>''
      else if length ip \<noteq> 4 \<and> length ip \<noteq> 16 then ''?'' @ hexString ip
      else case To4 ip of Some p4 \<Rightarrow> dotted p4 | None \<Rightarrow> string16 ip)"

section \<open>The query name codec\<close>

text \<open>The struct \<^verbatim>\<open>DNSQuery\<close> (lines 104-110).\<close>

record DNSQuery =
  ResponseIPAddr_q :: string
  ResponseReboundIPAddr_q :: string
  Session :: string
  DNSRebindingStrategy_q :: string
  Domain :: string

text \<open>\<^verbatim>\<open>new(DNSQuery)\<close>: every field is the empty string.\<close>

definition new_DNSQuery :: DNSQuery where
  "new_DNSQuery =
     \<lparr>ResponseIPAddr_q = [], ResponseReboundIPAddr_q = [], Session = [],
      DNSRebindingStrategy_q = [], Domain = []\<rparr>"

text \<open>The errors of \<^verbatim>\<open>NewDNSQuery\<close>, one constructor for each message, in the order of
  the source.\<close>

datatype parse_error =
    NoStartTag      \<comment> \<open>cannot find start tag in DNS query\<close>
  | NoEndTag        \<comment> \<open>cannot find end tag in DNS query\<close>
  | BadDomain       \<comment> \<open>cannot parse domain in DNS query\<close>
  | BadStart        \<comment> \<open>cannot parse start of DNS query\<close>
  | NoHosts         \<comment> \<open>cannot find attacker and target hosts\<close>
  | BadFirstHost    \<comment> \<open>failed to decode IP address of the first host in DNS query\<close>
  | BadCNAME        \<comment> \<open>cannot parse CNAME of second host in DNS query\<close>
  | BadSession      \<comment> \<open>cannot parse session in DNS query\<close>

text \<open>
  The second host (lines 164-179): a decodable hex string is an address and is printed
  as one; anything else is a name, un-escaped and checked unless it is \<open>localhost\<close>.
  \<open>IsDomainName\<close> is \<^verbatim>\<open>golang.IsDomainName\<close>, a function of another package of the
  repository, and is a parameter.
\<close>

definition second_host :: "(string \<Rightarrow> bool) \<Rightarrow> string \<Rightarrow> parse_error + string" where
  "second_host IsDomainName eleme1 =
     (case DecodeString eleme1 of
        None \<Rightarrow>
          if eleme1 \<noteq> ''localhost'' then
            (let elem1Str = Replace eleme1 ''_'' ''-'' in
             if IsDomainName elem1Str = False then Inl BadCNAME else Inr elem1Str)
          else Inr eleme1
      | Some elem1 \<Rightarrow> Inr (IP_String elem1))"

text \<open>
  \<^verbatim>\<open>NewDNSQuery\<close> (lines 123-194) returns the record and the error together, the record
  as far as it was filled when the error was found.
\<close>

definition NewDNSQuery :: "(string \<Rightarrow> bool) \<Rightarrow> string \<Rightarrow> DNSQuery \<times> parse_error option" where
  "NewDNSQuery IsDomainName qname0 =
     (let name = new_DNSQuery;
          qname1 = Replace qname0 ''--'' ''_'' in
      if \<not> HasPrefix qname1 ''s-'' then (name, Some NoStartTag)
      else
        let qname = TrimPrefix qname1 ''s-'';
            split1 = Split qname ''-e.'' in
        if length split1 \<noteq> 2 then (name, Some NoEndTag)
        else
          let domainSuffix = split1 ! 1 in
          if length domainSuffix < 3 \<and> \<not> ContainsAny domainSuffix ''.''
          then (name, Some BadDomain)
          else
            let split2 = Split (split1 ! 0) ''-'' in
            if length split2 \<noteq> 3 then (name, Some BadStart)
            else
              case Cut (split2 ! 0) ''.'' of
                (eleme0, eleme1, found) \<Rightarrow>
                  if \<not> found then (name, Some NoHosts)
                  else
                    (case DecodeString eleme0 of
                       None \<Rightarrow> (name, Some BadFirstHost)
                     | Some elem0 \<Rightarrow>
                        (case second_host IsDomainName eleme1 of
                           Inl e \<Rightarrow> (name, Some e)
                         | Inr elem1Str \<Rightarrow>
                            (let name1 = name\<lparr>ResponseIPAddr_q := IP_String elem0,
                                               ResponseReboundIPAddr_q := elem1Str,
                                               Session := split2 ! 1\<rparr> in
                             if length (Session name1) = 0 then (name1, Some BadSession)
                             else (name1\<lparr>DNSRebindingStrategy_q := split2 ! 2,
                                         Domain := ''.'' @ domainSuffix\<rparr>, None)))))"

section \<open>Time\<close>

text \<open>
  A \<^verbatim>\<open>time.Time\<close> is modelled by the nanoseconds since the zero time (the value of an
  unset field, for which \<^verbatim>\<open>IsZero\<close> holds), a \<^verbatim>\<open>time.Duration\<close> by its 64-bit count
  of nanoseconds. \<^verbatim>\<open>Time.Sub\<close> saturates at the ends of the range of a duration, and
  the product of two durations wraps around.
\<close>

type_synonym Time = int
type_synonym Duration = int

definition maxDuration :: Duration where
  "maxDuration = 2 ^ 63 - 1"

definition minDuration :: Duration where
  "minDuration = - (2 ^ 63)"

definition int64 :: "int \<Rightarrow> int" where
  "int64 x = (x + 2 ^ 63) mod 2 ^ 64 - 2 ^ 63"

definition Second :: Duration where
  "Second = 1000000000"

definition IsZero :: "Time \<Rightarrow> bool" where
  "IsZero t = (t = 0)"

definition Sub :: "Time \<Rightarrow> Time \<Rightarrow> Duration" where
  "Sub t u =
     (let d = t - u in
      if d > maxDuration then maxDuration else if d < minDuration then minDuration else d)"

section \<open>The session store\<close>

text \<open>The struct \<^verbatim>\<open>DNSClientState\<close> (lines 76-85).\<close>

record DNSClientState =
  FirstQueryTime :: Time
  LastQueryTime :: Time
  CurrentQueryTime :: Time
  ResponseIPAddr :: string
  ResponseReboundIPAddr :: string
  LastResponseReboundIPAddr :: int
  ResponseReboundIPAddrtimeOut :: int
  FirewalledOnce :: bool

text \<open>
  The field \<^verbatim>\<open>Sessions\<close> of the store: a map from session ids to states. The handlers
  of one request run here as one step each; the lock of the store is not modelled.
\<close>

type_synonym Sessions = "string \<rightharpoonup> DNSClientState"

text \<open>
  \<^verbatim>\<open>ExpireOldEntries\<close> (lines 91-100). The loop reads the clock once for every entry;
  \<open>clock sk\<close> is the time read at the entry of key \<open>sk\<close>.
\<close>

definition ExpireOldEntries :: "(string \<Rightarrow> Time) \<Rightarrow> Duration \<Rightarrow> Sessions \<Rightarrow> Sessions" where
  "ExpireOldEntries clock duration dcss =
     (\<lambda>sk. case dcss sk of
              None \<Rightarrow> None
            | Some sv \<Rightarrow>
               (let diff = Sub (clock sk) (LastQueryTime sv) in
                if (\<not> IsZero (LastQueryTime sv)) \<and> diff > duration then None else Some sv))"

section \<open>Rebinding strategies\<close>

text \<open>The struct \<^verbatim>\<open>dns.Question\<close>, and the two query types the handler answers.\<close>

record Question =
  Name :: string
  Qtype :: nat
  Qclass :: nat

definition TypeA :: nat where
  "TypeA = 1"

definition TypeAAAA :: nat where
  "TypeAAAA = 28"

definition ClassINET :: nat where
  "ClassINET = 1"

text \<open>What stops a handler: reading a field through the nil pointer that the map gives
  for a missing key, and an index outside a slice.\<close>

datatype panic = NilDereference | IndexOutOfRange

type_synonym strategy_result = "panic + (string list \<times> Sessions)"

definition dnsRebindFirst :: "string \<Rightarrow> Sessions \<Rightarrow> Question \<Rightarrow> strategy_result" where
  "dnsRebindFirst session dcss q =
     (case dcss session of
        None \<Rightarrow> Inl NilDereference
      | Some st \<Rightarrow> Inr ([ResponseIPAddr st], dcss))"

definition DNSRebindFromQueryFirstThenSecond ::
    "string \<Rightarrow> Sessions \<Rightarrow> Question \<Rightarrow> strategy_result" where
  "DNSRebindFromQueryFirstThenSecond session dcss q =
     (case dcss session of
        None \<Rightarrow> Inl NilDereference
      | Some st \<Rightarrow>
         (let answers = [ResponseIPAddr st];
              elapsed = Sub (CurrentQueryTime st) (LastQueryTime st);
              timeOut = ResponseReboundIPAddrtimeOut st
          in Inr (if elapsed < int64 (Second * timeOut)
                  then answers[0 := ResponseReboundIPAddr st] else answers, dcss)))"

text \<open>\<open>rnd\<close> is the number that \<^verbatim>\<open>rand.Intn(len(hosts))\<close> draws, below the length.\<close>

definition DNSRebindFromQueryRandom ::
    "nat \<Rightarrow> string \<Rightarrow> Sessions \<Rightarrow> Question \<Rightarrow> strategy_result" where
  "DNSRebindFromQueryRandom rnd session dcss q =
     (case dcss session of
        None \<Rightarrow> Inl NilDereference
      | Some st \<Rightarrow>
         (let answers = [ResponseIPAddr st];
              hosts = [ResponseIPAddr st, ResponseReboundIPAddr st]
          in Inr (answers[0 := hosts ! (rnd mod length hosts)], dcss)))"

definition DNSRebindFromQueryRoundRobin ::
    "string \<Rightarrow> Sessions \<Rightarrow> Question \<Rightarrow> strategy_result" where
  "DNSRebindFromQueryRoundRobin session dcss q =
     (case dcss session of
        None \<Rightarrow> Inl NilDereference
      | Some st \<Rightarrow>
         (let answers = [ResponseIPAddr st];
              hosts = [[], ResponseIPAddr st, ResponseReboundIPAddr st];
              last0 = LastResponseReboundIPAddr st;
              last1 = (if last0 = 0 then 1 else if last0 = 1 then 2
                       else if last0 = 2 then 1 else last0);
              dcss1 = dcss(session \<mapsto> st\<lparr>LastResponseReboundIPAddr := last1\<rparr>)
          in if 0 \<le> last1 \<and> last1 < 3
             then Inr (answers[0 := hosts ! nat last1], dcss1)
             else Inl IndexOutOfRange))"

definition DNSRebindFromQueryMultiA :: "string \<Rightarrow> Sessions \<Rightarrow> Question \<Rightarrow> strategy_result" where
  "DNSRebindFromQueryMultiA session dcss q =
     (case dcss session of
        None \<Rightarrow> Inl NilDereference
      | Some st \<Rightarrow>
          if FirewalledOnce st = True then Inr ([ResponseReboundIPAddr st], dcss)
          else Inr ([ResponseIPAddr st, ResponseReboundIPAddr st], dcss))"

text \<open>
  The values of the function type of a strategy: the five functions of the package
  that have it. \<open>call\<close> applies one.
\<close>

datatype RebindingFn = RoundRobin | FirstThenSecond | Random | MultiA | First

fun call :: "RebindingFn \<Rightarrow> nat \<Rightarrow> string \<Rightarrow> Sessions \<Rightarrow> Question \<Rightarrow> strategy_result" where
  "call RoundRobin rnd = DNSRebindFromQueryRoundRobin"
| "call FirstThenSecond rnd = DNSRebindFromQueryFirstThenSecond"
| "call Random rnd = DNSRebindFromQueryRandom rnd"
| "call MultiA rnd = DNSRebindFromQueryMultiA"
| "call First rnd = dnsRebindFirst"

text \<open>The map \<^verbatim>\<open>DNSRebindingStrategy\<close> (lines 31-36).\<close>

definition DNSRebindingStrategy :: "string \<rightharpoonup> RebindingFn" where
  "DNSRebindingStrategy =
     [''rr'' \<mapsto> RoundRobin, ''fs'' \<mapsto> FirstThenSecond, ''rd'' \<mapsto> Random, ''ma'' \<mapsto> MultiA]"

section \<open>The DNS responder\<close>

text \<open>
  Three functions that the responder calls are not part of \<^verbatim>\<open>singularity.go\<close> and are
  parameters of the model: \<^verbatim>\<open>net.ParseIP\<close> (\<open>None\<close> is its nil), \<^verbatim>\<open>dns.NewRR\<close>, which
  parses the text of a resource record (\<open>None\<close> is its error), and
  \<^verbatim>\<open>golang.IsDomainName\<close>. A theorem about the responder with the parameter \<open>env\<close>
  holds for all of them.
\<close>

record 'rr lib =
  ParseIP :: "string \<Rightarrow> IP option"
  NewRR :: "string \<Rightarrow> 'rr option"
  IsDomainName :: "string \<Rightarrow> bool"

text \<open>The fields of \<^verbatim>\<open>AppConfig\<close> (lines 48-60) that the responder reads.\<close>

record AppConfig =
  ResponseIPAddr_cfg :: string
  RebindingFn_cfg :: RebindingFn
  ResponseReboundIPAddrtimeOut_cfg :: int
  IgnoreDNSRequestFrom :: "IP list"

text \<open>The dynamic types of a \<^verbatim>\<open>net.Addr\<close> that \<^verbatim>\<open>addrInIPAddressList\<close> tells apart.\<close>

datatype Addr = TCPAddr IP | UDPAddr IP | IPAddr IP | OtherAddr

definition addrInIPAddressList :: "Addr \<Rightarrow> IP list \<Rightarrow> bool" where
  "addrInIPAddressList addr ips =
     (case addr of
        TCPAddr addrIP \<Rightarrow> list_ex (\<lambda>ip. IP_Equal ip addrIP) ips
      | UDPAddr addrIP \<Rightarrow> list_ex (\<lambda>ip. IP_Equal ip addrIP) ips
      | IPAddr addrIP \<Rightarrow> list_ex (\<lambda>ip. IP_Equal ip addrIP) ips
      | OtherAddr \<Rightarrow> False)"

text \<open>
  The fields of a \<^verbatim>\<open>dns.Msg\<close> that the responder reads and writes. \<^verbatim>\<open>SetReply\<close> copies
  the opcode and the first question of the request, and no other question.
\<close>

record 'rr Msg =
  Opcode :: int
  Question :: "Question list"
  Answer :: "'rr list"

definition OpcodeQuery :: int where
  "OpcodeQuery = 0"

definition SetReply :: "'rr Msg \<Rightarrow> 'rr Msg" where
  "SetReply r = \<lparr>Opcode = Opcode r, Question = take 1 (Question r), Answer = []\<rparr>"

text \<open>
  The closure \<^verbatim>\<open>respond\<close> (lines 411-442), with the question \<open>q\<close> that it captures:
  the text of one resource record, or the error of a type mismatch.
\<close>

datatype respond_error = Mismatch

definition respond ::
    "'rr lib \<Rightarrow> Question \<Rightarrow> string \<Rightarrow> string \<Rightarrow> string \<Rightarrow> bool \<Rightarrow> respond_error + string" where
  "respond env q question time answer additionalRecord =
     (case ParseIP env answer of
        Some address \<Rightarrow>
         (let recordType = (if To4 address = None then ''AAAA'' else ''A'');
              isMatch = ((recordType = ''AAAA'' \<and> Qtype q = TypeAAAA) \<or>
                         (recordType = ''A'' \<and> Qtype q = TypeA))
          in if isMatch
             then Inr (question @ '' '' @ time @ '' IN '' @ recordType @ '' '' @ answer)
             else if additionalRecord
             then Inr (question @ '' '' @ time @ '' IN '' @ recordType @ '' '' @ answer)
             else Inl Mismatch)
      | None \<Rightarrow> Inr (question @ '' 10 IN CNAME '' @ answer @ ''.''))"

text \<open>
  Lines 444-469: the texts of the records for the answers of the strategy. A type
  mismatch ends the handler; reading an answer that is not there is a panic.
\<close>

definition build_response ::
    "'rr lib \<Rightarrow> Question \<Rightarrow> string list \<Rightarrow> panic + (respond_error + string list)" where
  "build_response env q answers =
     (if length answers = 1 then
        (case respond env q (Name q) ''0'' (answers ! 0) False of
           Inl err \<Rightarrow> Inr (Inl err)
         | Inr res \<Rightarrow> Inr (Inr [res]))
      else if length answers < 2 then Inl IndexOutOfRange
      else
        (case respond env q (Name q) ''10'' (answers ! 0) True of
           Inl err \<Rightarrow> Inr (Inl err)
         | Inr res0 \<Rightarrow>
            (case respond env q (Name q) ''0'' (answers ! 1) True of
               Inl err \<Rightarrow> Inr (Inl err)
             | Inr res1 \<Rightarrow> Inr (Inr [res0, res1]))))"

text \<open>
  How the body of the loop over the questions ends: the handler returns, having written
  a message or none, or the loop goes on with the reply built so far.
\<close>

datatype 'rr outcome = Return "'rr Msg option" | Continue "'rr Msg"

text \<open>
  Lines 346-374, for a name without the start tag. \<open>None\<close>: the record text was not
  accepted, and the handler goes on at line 376.
\<close>

definition qname_minimisation ::
    "'rr lib \<Rightarrow> AppConfig \<Rightarrow> 'rr Msg \<Rightarrow> Question \<Rightarrow> 'rr outcome option" where
  "qname_minimisation env appConfig m q =
     (case ParseIP env (ResponseIPAddr_cfg appConfig) of
        None \<Rightarrow> Some (Return None)
      | Some address \<Rightarrow>
         (let response =
                (if To4 address \<noteq> None
                 then Name q @ '' '' @ ''0'' @ '' IN A '' @ ResponseIPAddr_cfg appConfig
                 else Name q @ '' '' @ ''0'' @ '' IN AAAA '' @ ResponseIPAddr_cfg appConfig)
          in case NewRR env response of
               Some rr \<Rightarrow> Some (Return (Some (m\<lparr>Answer := Answer m @ [rr]\<rparr>)))
             | None \<Rightarrow> None))"

text \<open>
  The state prepared for a new session (lines 377-379 and 391-392): the two time
  stamps, the timeout of the configuration and the two hosts of the query; the other
  fields are the zero values of their types.
\<close>

definition new_clientState :: "AppConfig \<Rightarrow> Time \<Rightarrow> DNSQuery \<Rightarrow> DNSClientState" where
  "new_clientState appConfig now name =
     \<lparr>FirstQueryTime = now, LastQueryTime = 0, CurrentQueryTime = now,
      ResponseIPAddr = ResponseIPAddr_q name,
      ResponseReboundIPAddr = ResponseReboundIPAddr_q name,
      LastResponseReboundIPAddr = 0,
      ResponseReboundIPAddrtimeOut = ResponseReboundIPAddrtimeOut_cfg appConfig,
      FirewalledOnce = False\<rparr>"

text \<open>The strategy of a query (lines 325 and 393-395): the one its tag names, or the
  one of the configuration.\<close>

definition chosen_strategy :: "AppConfig \<Rightarrow> DNSQuery \<Rightarrow> RebindingFn" where
  "chosen_strategy appConfig name =
     (case DNSRebindingStrategy (DNSRebindingStrategy_q name) of
        Some fn \<Rightarrow> fn
      | None \<Rightarrow> RebindingFn_cfg appConfig)"

text \<open>Lines 397-405: a session that is not in the store is put there.\<close>

definition store_new_session :: "Sessions \<Rightarrow> string \<Rightarrow> DNSClientState \<Rightarrow> Sessions" where
  "store_new_session dcss session clientState =
     (case dcss session of
        None \<Rightarrow> dcss(session \<mapsto> clientState)
      | Some st \<Rightarrow> dcss)"

text \<open>Lines 376-483, for one question: parse, create the session, ask the strategy,
  build the records, stamp the session, parse the records.\<close>

definition encoded_query ::
    "'rr lib \<Rightarrow> AppConfig \<Rightarrow> Time \<Rightarrow> nat \<Rightarrow> Sessions \<Rightarrow> 'rr Msg \<Rightarrow> Question \<Rightarrow> string
      \<Rightarrow> panic + ('rr outcome \<times> Sessions)" where
  "encoded_query env appConfig now rnd dcss m q qnameLower =
     (case NewDNSQuery (IsDomainName env) qnameLower of
        (name, Some err) \<Rightarrow> Inr (Return None, dcss)
      | (name, None) \<Rightarrow>
         (let clientState = new_clientState appConfig now name;
              rebindingFn = chosen_strategy appConfig name;
              dcss1 = store_new_session dcss (Session name) clientState
          in case call rebindingFn rnd (Session name) dcss1 q of
               Inl p \<Rightarrow> Inl p
             | Inr (answers, dcss2) \<Rightarrow>
                (case build_response env q answers of
                   Inl p \<Rightarrow> Inl p
                 | Inr (Inl err) \<Rightarrow> Inr (Return (Some m), dcss2)
                 | Inr (Inr response) \<Rightarrow>
                    (case dcss2 (Session name) of
                       None \<Rightarrow> Inl NilDereference
                     | Some st \<Rightarrow>
                        Inr (Continue (m\<lparr>Answer := Answer m @
                                            List.map_filter (NewRR env) response\<rparr>),
                             dcss2(Session name \<mapsto>
                               st\<lparr>CurrentQueryTime := now, LastQueryTime := now\<rparr>))))))"

text \<open>The body of the loop (lines 334-484) for the question \<open>q\<close>; \<open>remote\<close> is
  \<^verbatim>\<open>w.RemoteAddr()\<close>.\<close>

definition handle_question ::
    "'rr lib \<Rightarrow> AppConfig \<Rightarrow> Time \<Rightarrow> nat \<Rightarrow> Addr \<Rightarrow> Sessions \<Rightarrow> 'rr Msg \<Rightarrow> Question
      \<Rightarrow> panic + ('rr outcome \<times> Sessions)" where
  "handle_question env appConfig now rnd remote dcss m q =
     (if Qtype q = TypeA \<or> Qtype q = TypeAAAA then
        if addrInIPAddressList remote (IgnoreDNSRequestFrom appConfig)
        then Inr (Return None, dcss)
        else
          (let qnameLower = ToLower (Name q) in
           case (if HasPrefix qnameLower ''s-'' then None
                 else qname_minimisation env appConfig m q) of
             Some out \<Rightarrow> Inr (out, dcss)
           | None \<Rightarrow> encoded_query env appConfig now rnd dcss m q qnameLower)
      else Inr (Continue m, dcss))"

text \<open>The loop over the questions of the reply, and the write of line 487 after it.
  The result is the message written, if any, and the store.\<close>

fun questions_loop ::
    "'rr lib \<Rightarrow> AppConfig \<Rightarrow> Time \<Rightarrow> nat \<Rightarrow> Addr \<Rightarrow> Sessions \<Rightarrow> 'rr Msg \<Rightarrow> Question list
      \<Rightarrow> panic + ('rr Msg option \<times> Sessions)" where
  "questions_loop env appConfig now rnd remote dcss m [] = Inr (Some m, dcss)"
| "questions_loop env appConfig now rnd remote dcss m (q # qs) =
     (case handle_question env appConfig now rnd remote dcss m q of
        Inl p \<Rightarrow> Inl p
      | Inr (Return written, dcss1) \<Rightarrow> Inr (written, dcss1)
      | Inr (Continue m1, dcss1) \<Rightarrow> questions_loop env appConfig now rnd remote dcss1 m1 qs)"

text \<open>
  The handler that \<^verbatim>\<open>MakeRebindDNSHandler\<close> makes (lines 320-489), for the request \<open>r\<close>
  of the peer \<open>remote\<close>, at the time \<open>now\<close>, on the store \<open>dcss\<close>.
\<close>

definition MakeRebindDNSHandler ::
    "'rr lib \<Rightarrow> AppConfig \<Rightarrow> Time \<Rightarrow> nat \<Rightarrow> Addr \<Rightarrow> Sessions \<Rightarrow> 'rr Msg
      \<Rightarrow> panic + ('rr Msg option \<times> Sessions)" where
  "MakeRebindDNSHandler env appConfig now rnd remote dcss r =
     (let m = SetReply r in
      if Opcode r = OpcodeQuery
      then questions_loop env appConfig now rnd remote dcss m (Question m)
      else Inr (Some m, dcss))"

section \<open>The HTTP handlers\<close>

text \<open>The fields of a request that the handlers read.\<close>

record Request =
  Method :: string
  Host :: string
  RemoteAddr :: string

subsection \<open>The catch-all route\<close>

text \<open>
  What the handler of \<^verbatim>\<open>/\<close> (lines 848-890) hands the request to: the handler of the
  packet filter, or the handler that sets the default headers (lines 548-555) and
  then serves the files of \<^verbatim>\<open>./html\<close>.
\<close>

datatype handler = IPTablesHandler | FileServer string

record served =
  headers :: "(string \<times> string) list"
  by_handler :: handler

definition DefaultHeadersHandler :: "handler \<Rightarrow> served" where
  "DefaultHeadersHandler NextHandler =
     \<lparr>headers = [(''Cache-Control'', ''no-cache, no-store, must-revalidate''),
                 (''Pragma'', ''no-cache''),
                 (''Expires'', ''0''),
                 (''X-DNS-Prefetch-Control'', ''off''),
                 (''X-Singularity-Of-Origin'', ''t'')],
      by_handler = NextHandler\<rparr>"

definition root_handler ::
    "(string \<Rightarrow> bool) \<Rightarrow> Time \<Rightarrow> Sessions \<Rightarrow> Request \<Rightarrow> served \<times> Sessions" where
  "root_handler isDomainName now dcss req =
     (let d = DefaultHeadersHandler (FileServer ''./html'') in
      case NewDNSQuery isDomainName (Host req) of
        (name, Some err) \<Rightarrow> (d, dcss)
      | (name, None) \<Rightarrow>
         (case dcss (Session name) of
            None \<Rightarrow> (d, dcss)
          | Some st \<Rightarrow>
             (let elapsed = Sub now (FirstQueryTime st) in
              if DNSRebindingStrategy_q name = ''ma'' \<and> elapsed > int64 (Second * 3)
              then (\<lparr>headers = [], by_handler = IPTablesHandler\<rparr>,
                    dcss(Session name \<mapsto> st\<lparr>FirewalledOnce := True\<rparr>))
              else (d, dcss))))"

subsection \<open>The route /clientinfo\<close>

text \<open>
  The handler is one object for all the requests of a server; its two fields are its
  state. A body is the JSON encoding of a value of the struct, and is modelled by the
  value. Lines 558-576.
\<close>

record HTTPClientInfoHandler =
  IPAddress :: string
  Port :: string

record Response =
  StatusCode :: nat
  Body :: HTTPClientInfoHandler

definition HTTPClientInfoHandler_ServeHTTP ::
    "HTTPClientInfoHandler \<Rightarrow> Request \<Rightarrow> (panic + Response) \<times> HTTPClientInfoHandler" where
  "HTTPClientInfoHandler_ServeHTTP hcih r =
     (let emptyResponse = hcih;
          splitted = Split (RemoteAddr r) '':'';
          hcih1 = hcih\<lparr>IPAddress := splitted ! 0\<rparr>
      in if length splitted < 2 then (Inl IndexOutOfRange, hcih1)
         else
           (let hcih2 = hcih1\<lparr>Port := splitted ! 1\<rparr>;
                clientInfoResponse = hcih2
            in if Method r = ''GET''
               then (Inr \<lparr>StatusCode = 200, Body = clientInfoResponse\<rparr>, hcih2)
               else (Inr \<lparr>StatusCode = 400, Body = emptyResponse\<rparr>, hcih2)))"

section \<open>Instances for running the model\<close>

text \<open>
  To run the responder on a concrete query the three library parameters need values.
  \<open>ParseIP_dotted\<close> is \<^verbatim>\<open>net.ParseIP\<close> on text without a colon: four decimal fields
  separated by dots, each at most 255 and without a leading zero, give the 16-byte
  form of the IPv4 address; any other text without a colon is no address. (Text with a
  colon, the notation of IPv6, is outside this instance, and no example has one.)
\<close>

definition decimal_field :: "string \<Rightarrow> nat option" where
  "decimal_field f =
     (if f \<noteq> [] \<and> length f \<le> 3
         \<and> list_all (\<lambda>c. 48 \<le> (of_char c :: nat) \<and> (of_char c :: nat) \<le> 57) f
         \<and> (length f = 1 \<or> hd f \<noteq> CHR ''0'')
      then
        (let n = foldl (\<lambda>acc c. acc * 10 + ((of_char c :: nat) - 48)) 0 f
         in if n \<le> 255 then Some n else None)
      else None)"

definition ParseIP_dotted :: "string \<Rightarrow> IP option" where
  "ParseIP_dotted s =
     (let fields = map decimal_field (Split s ''.'') in
      if length fields = 4 \<and> list_all (\<lambda>f. f \<noteq> None) fields
      then Some (v4InV6Prefix @ map the fields) else None)"

text \<open>
  \<open>example_lib\<close> keeps a resource record as its text and accepts every text (the
  library accepts the texts of the examples). The examples have an address or
  \<open>localhost\<close> as their second host, so that \<open>IsDomainName\<close> is never asked.
\<close>

definition example_lib :: "string lib" where
  "example_lib = \<lparr>ParseIP = ParseIP_dotted, NewRR = Some, IsDomainName = (\<lambda>name. False)\<rparr>"

section \<open>The events that change the store\<close>

text \<open>
  The store is changed by the responder, by the handler of the catch-all route and by
  the sweep. A run applies a list of such events in order, each as one step; a panic
  of the responder ends the process.
\<close>

datatype 'rr event =
    DNSRequest Time nat Addr "'rr Msg"
  | HTTPRequest Time Request
  | ExpireTick "string \<Rightarrow> Time" Duration

fun step :: "'rr lib \<Rightarrow> AppConfig \<Rightarrow> Sessions \<Rightarrow> 'rr event \<Rightarrow> panic + Sessions" where
  "step env appConfig dcss (DNSRequest now rnd remote r) =
     (case MakeRebindDNSHandler env appConfig now rnd remote dcss r of
        Inl p \<Rightarrow> Inl p
      | Inr (written, dcss1) \<Rightarrow> Inr dcss1)"
| "step env appConfig dcss (HTTPRequest now req) =
     Inr (snd (root_handler (IsDomainName env) now dcss req))"
| "step env appConfig dcss (ExpireTick clock duration) =
     Inr (ExpireOldEntries clock duration dcss)"

fun run :: "'rr lib \<Rightarrow> AppConfig \<Rightarrow> Sessions \<Rightarrow> 'rr event list \<Rightarrow> panic + Sessions" where
  "run env appConfig dcss [] = Inr dcss"
| "run env appConfig dcss (e # es) =
     (case step env appConfig dcss e of
        Inl p \<Rightarrow> Inl p
      | Inr dcss1 \<Rightarrow> run env appConfig dcss1 es)"

fun is_sweep :: "'rr event \<Rightarrow> bool" where
  "is_sweep (ExpireTick clock duration) = True"
| "is_sweep e = False"

text \<open>
  The answer sections of the replies to a list of requests, served one after the other
  on the same store; \<open>None\<close> stands for a request that got no reply.
\<close>

fun replies ::
    "'rr lib \<Rightarrow> AppConfig \<Rightarrow> Sessions \<Rightarrow> (Time \<times> nat \<times> Addr \<times> 'rr Msg) list
      \<Rightarrow> panic + 'rr list option list" where
  "replies env appConfig dcss [] = Inr []"
| "replies env appConfig dcss ((now, rnd, remote, r) # rs) =
     (case MakeRebindDNSHandler env appConfig now rnd remote dcss r of
        Inl p \<Rightarrow> Inl p
      | Inr (written, dcss1) \<Rightarrow>
         (case replies env appConfig dcss1 rs of
            Inl p \<Rightarrow> Inl p
          | Inr ws \<Rightarrow> Inr (map_option Answer written # ws)))"

text \<open>The session is in the store after every event of the run, and no event ends in a
  panic.\<close>

fun session_kept ::
    "'rr lib \<Rightarrow> AppConfig \<Rightarrow> string \<Rightarrow> Sessions \<Rightarrow> 'rr event list \<Rightarrow> bool" where
  "session_kept env appConfig session dcss [] = True"
| "session_kept env appConfig session dcss (e # es) =
     (case step env appConfig dcss e of
        Inl p \<Rightarrow> False
      | Inr dcss1 \<Rightarrow>
         (case dcss1 session of
            None \<Rightarrow> False
          | Some st \<Rightarrow> session_kept env appConfig session dcss1 es))"




section \<open>Example data\<close>

text \<open>
  A configuration with the attacker address \<open>203.0.113.5\<close>, the strategy
  first-then-second, a timeout of 30 seconds, and the peer \<open>10.0.0.9\<close> on the ignore
  list; a request with one question; and the state of a session \<open>m1\<close> that was
  answered once, at a time \<open>t0\<close> of the year 2026.
\<close>

definition example_config :: AppConfig where
  "example_config =
     \<lparr>ResponseIPAddr_cfg = ''203.0.113.5'', RebindingFn_cfg = FirstThenSecond,
      ResponseReboundIPAddrtimeOut_cfg = 30, IgnoreDNSRequestFrom = [[10, 0, 0, 9]]\<rparr>"

definition request :: "string \<Rightarrow> nat \<Rightarrow> string Msg" where
  "request qname qtype =
     \<lparr>Opcode = OpcodeQuery, Question = [\<lparr>Name = qname, Qtype = qtype, Qclass = ClassINET\<rparr>],
      Answer = []\<rparr>"

definition t0 :: Time where
  "t0 = 63900000000000000000"

definition m1_state :: DNSClientState where
  "m1_state =
     \<lparr>FirstQueryTime = t0, LastQueryTime = t0, CurrentQueryTime = t0,
      ResponseIPAddr = ''192.168.0.1'', ResponseReboundIPAddr = ''127.0.0.1'',
      LastResponseReboundIPAddr = 0, ResponseReboundIPAddrtimeOut = 30,
      FirewalledOnce = False\<rparr>"

text \<open>The state of the session \<open>xyz\<close> of the round-robin example after its first query.\<close>

definition xyz_state :: DNSClientState where
  "xyz_state =
     \<lparr>FirstQueryTime = t0, LastQueryTime = t0, CurrentQueryTime = t0,
      ResponseIPAddr = ''10.0.0.1'', ResponseReboundIPAddr = ''10.0.0.2'',
      LastResponseReboundIPAddr = 1, ResponseReboundIPAddrtimeOut = 30,
      FirewalledOnce = False\<rparr>"


section \<open>Invariants of the store\<close>

text \<open>
  What the responder may change in the state of a session: the round-robin index, to a
  value of its cycle, and the time stamps of the current and the last query.
\<close>

definition responder_change :: "DNSClientState \<Rightarrow> DNSClientState \<Rightarrow> bool" where
  "responder_change st st' =
     (FirstQueryTime st' = FirstQueryTime st
      \<and> ResponseIPAddr st' = ResponseIPAddr st
      \<and> ResponseReboundIPAddr st' = ResponseReboundIPAddr st
      \<and> ResponseReboundIPAddrtimeOut st' = ResponseReboundIPAddrtimeOut st
      \<and> FirewalledOnce st' = FirewalledOnce st
      \<and> (LastResponseReboundIPAddr st' = LastResponseReboundIPAddr st
           \<or> LastResponseReboundIPAddr st' = 1 \<or> LastResponseReboundIPAddr st' = 2))"

text \<open>The state that the strategy of a query sees: the stored one, or the one the
  responder has just created.\<close>

definition session_base :: "AppConfig \<Rightarrow> Time \<Rightarrow> DNSQuery \<Rightarrow> Sessions \<Rightarrow> DNSClientState" where
  "session_base appConfig now name dcss =
     (case dcss (Session name) of
        Some st \<Rightarrow> st
      | None \<Rightarrow> new_clientState appConfig now name)"

text \<open>
  The effect of a request on the store: none, or one session is created or changed
  (within \<open>responder_change\<close>); a panic needs a round-robin index outside the cycle.
\<close>

definition responder_effect ::
    "AppConfig \<Rightarrow> Time \<Rightarrow> Sessions \<Rightarrow> panic + ('a \<times> Sessions) \<Rightarrow> bool" where
  "responder_effect appConfig now dcss res =
     ((\<exists>out. res = Inr (out, dcss))
      \<or> (\<exists>name. (res = Inl IndexOutOfRange
                    \<and> LastResponseReboundIPAddr (session_base appConfig now name dcss)
                          \<notin> {0, 1, 2})
                 \<or> (\<exists>out st1. res = Inr (out, dcss(Session name \<mapsto> st1))
                        \<and> responder_change (session_base appConfig now name dcss) st1)))"

text \<open>Every round-robin index of the store is 0, 1 or 2.\<close>

definition index_in_cycle :: "Sessions \<Rightarrow> bool" where
  "index_in_cycle dcss =
     (\<forall>sk sv. dcss sk = Some sv \<longrightarrow> LastResponseReboundIPAddr sv \<in> {0, 1, 2})"

text \<open>The session is in the store with \<open>FirewalledOnce\<close> set and the given target.\<close>

definition latched :: "string \<Rightarrow> string \<Rightarrow> Sessions \<Rightarrow> bool" where
  "latched session target dcss =
     (\<exists>st. dcss session = Some st \<and> FirewalledOnce st = True
            \<and> ResponseReboundIPAddr st = target)"

section \<open>The failure modes of the codec\<close>

text \<open>
  The dash-separated fields of a name: the part between the start tag and the end tag,
  with every doubled dash taken as one escaped character; the first field holds the
  two hosts, separated by the first dot.
\<close>

definition dash_fields :: "string \<Rightarrow> string list" where
  "dash_fields qname =
     Split (hd (Split (TrimPrefix (Replace qname ''--'' ''_'') ''s-'') ''-e.'')) ''-''"

definition host1 :: "string \<Rightarrow> string" where
  "host1 qname = fst (Cut (hd (dash_fields qname)) ''.'')"

definition host2 :: "string \<Rightarrow> string" where
  "host2 qname = fst (snd (Cut (hd (dash_fields qname)) ''.''))"

text \<open>
  The failure modes that the specification lists: no start tag, no end tag, a number of
  fields other than three, a first host that is no hex string, and a second host
  that is neither a hex string nor \<open>localhost\<close> nor, un-escaped, a domain name.
\<close>

definition failure_mode :: "(string \<Rightarrow> bool) \<Rightarrow> string \<Rightarrow> bool" where
  "failure_mode isDomainName qname =
     (\<not> HasPrefix qname ''s-''
      \<or> \<not> sublist ''-e.'' qname
      \<or> length (dash_fields qname) \<noteq> 3
      \<or> DecodeString (host1 qname) = None
      \<or> (DecodeString (host2 qname) = None \<and> host2 qname \<noteq> ''localhost''
          \<and> \<not> isDomainName (Replace (host2 qname) ''_'' ''-'')))"

section \<open>The suffix rule of the codec\<close>

text \<open>
  Claim C7. The suffix rule says that a suffix shorter than three characters, or one
  without a dot, is rejected. Line 142 rejects a suffix only when it is both shorter
  than three characters and without a dot: the Host header
  \<^verbatim>\<open>s-c0a80001.7f000001-abc-fs-e.com\<close>, whose suffix \<open>com\<close> has no dot, is accepted and
  parsed, and so is the query name \<^verbatim>\<open>s-c0a80001.7f000001-abc-fs-e.a.\<close>, whose suffix
  \<open>a.\<close> has two characters.
\<close>

theorem suffix_rule_accepts_dotless_and_short:
  "NewDNSQuery isDomainName ''s-c0a80001.7f000001-abc-fs-e.com'' =
     (\<lparr>ResponseIPAddr_q = ''192.168.0.1'', ResponseReboundIPAddr_q = ''127.0.0.1'',
       Session = ''abc'', DNSRebindingStrategy_q = ''fs'', Domain = ''.com''\<rparr>, None)
   \<and> NewDNSQuery isDomainName ''s-c0a80001.7f000001-abc-fs-e.a.'' =
     (\<lparr>ResponseIPAddr_q = ''192.168.0.1'', ResponseReboundIPAddr_q = ''127.0.0.1'',
       Session = ''abc'', DNSRebindingStrategy_q = ''fs'', Domain = ''.a.''\<rparr>, None)"
  by code_simp

section \<open>The route /clientinfo\<close>

text \<open>
  Claim C9. A request with a method other than GET is to get status 400 and an empty
  JSON body. The body that line 563 encodes is the state of the handler before the
  request, and the handler is one object for all requests: after a GET from
  \<open>10.0.0.1:5000\<close>, a POST from \<open>10.0.0.2:4000\<close> gets status 400 and, as its body,
  the address and port of the earlier peer. The second fact: the remote address is
  split at every colon, so that for the IPv6 peer \<open>[2001:db8::1]:54321\<close> a GET
  gets \<open>[2001\<close> as the address and \<open>db8\<close> as the port.
\<close>

theorem clientinfo_error_body_is_previous_peer:
  "(let (r1, hcih1) = HTTPClientInfoHandler_ServeHTTP \<lparr>IPAddress = [], Port = []\<rparr>
                        \<lparr>Method = ''GET'', Host = ''a.tld'', RemoteAddr = ''10.0.0.1:5000''\<rparr>;
        (r2, hcih2) = HTTPClientInfoHandler_ServeHTTP hcih1
                        \<lparr>Method = ''POST'', Host = ''a.tld'', RemoteAddr = ''10.0.0.2:4000''\<rparr>
    in (r1, r2)) =
     (Inr \<lparr>StatusCode = 200, Body = \<lparr>IPAddress = ''10.0.0.1'', Port = ''5000''\<rparr>\<rparr>,
      Inr \<lparr>StatusCode = 400, Body = \<lparr>IPAddress = ''10.0.0.1'', Port = ''5000''\<rparr>\<rparr>)
   \<and> fst (HTTPClientInfoHandler_ServeHTTP \<lparr>IPAddress = [], Port = []\<rparr>
            \<lparr>Method = ''GET'', Host = ''a.tld'', RemoteAddr = ''[2001:db8::1]:54321''\<rparr>) =
     Inr \<lparr>StatusCode = 200, Body = \<lparr>IPAddress = ''[2001'', Port = ''db8''\<rparr>\<rparr>"
  by code_simp

section \<open>The catch-all route\<close>

text \<open>Within the range of a duration the saturation of \<^verbatim>\<open>Time.Sub\<close> does not show.\<close>

lemma Sub_gt_iff: "minDuration \<le> d \<Longrightarrow> d < maxDuration \<Longrightarrow> (Sub t u > d) = (t - u > d)"
  by (auto simp: Sub_def Let_def)

lemma Sub_lt_iff: "minDuration < d \<Longrightarrow> d \<le> maxDuration \<Longrightarrow> (Sub t u < d) = (t - u < d)"
  by (auto simp: Sub_def Let_def)

lemma three_seconds: "int64 (Second * 3) = 3000000000"
  by (simp add: int64_def Second_def)

lemma elapsed_gt_three_seconds: "(Sub now t > int64 (Second * 3)) = (now - t > 3000000000)"
  by (simp add: three_seconds Sub_gt_iff minDuration_def maxDuration_def)

lemma parse_m1_ma:
  "NewDNSQuery isDomainName ''s-c0a80001.7f000001-m1-ma-e.a.tld'' =
     (\<lparr>ResponseIPAddr_q = ''192.168.0.1'', ResponseReboundIPAddr_q = ''127.0.0.1'',
       Session = ''m1'', DNSRebindingStrategy_q = ''ma'', Domain = ''.a.tld''\<rparr>, None)"
  by code_simp

text \<open>
  Claim C2. A request to the catch-all route sets \<open>FirewalledOnce\<close> of the session and
  goes to the handler of the packet filter if and only if its Host header parses as
  an encoded query, the session of the query is in the store, the strategy tag is
  \<open>ma\<close>, and more than three seconds (in nanoseconds) have passed since the first
  query of the session. In every other case the five default headers (no caching, no
  DNS prefetch, the marker of the origin) are set, the files of \<^verbatim>\<open>./html\<close> are served,
  and the store is as it was.
\<close>

theorem http_catch_all_trigger:
  "(NewDNSQuery isDomainName (Host req) = (name, None) \<and> dcss (Session name) = Some st
      \<and> DNSRebindingStrategy_q name = ''ma'' \<and> now - FirstQueryTime st > 3 * 1000000000
     \<longrightarrow> root_handler isDomainName now dcss req =
           (\<lparr>headers = [], by_handler = IPTablesHandler\<rparr>,
            dcss(Session name \<mapsto> st\<lparr>FirewalledOnce := True\<rparr>)))
   \<and> (\<not> (\<exists>name st. NewDNSQuery isDomainName (Host req) = (name, None)
              \<and> dcss (Session name) = Some st
              \<and> DNSRebindingStrategy_q name = ''ma''
              \<and> now - FirstQueryTime st > 3 * 1000000000)
     \<longrightarrow> root_handler isDomainName now dcss req =
           (\<lparr>headers = [(''Cache-Control'', ''no-cache, no-store, must-revalidate''),
                        (''Pragma'', ''no-cache''), (''Expires'', ''0''),
                        (''X-DNS-Prefetch-Control'', ''off''),
                        (''X-Singularity-Of-Origin'', ''t'')],
             by_handler = FileServer ''./html''\<rparr>, dcss))"
  by (auto simp: root_handler_def DefaultHeadersHandler_def Let_def elapsed_gt_three_seconds
           split: prod.splits option.splits)

text \<open>The session \<open>m1\<close>, four seconds after its first query and two seconds after it.\<close>

theorem http_catch_all_trigger_witness:
  "root_handler (\<lambda>n. False) (t0 + 4000000000) [''m1'' \<mapsto> m1_state]
       \<lparr>Method = ''GET'', Host = ''s-c0a80001.7f000001-m1-ma-e.a.tld'',
        RemoteAddr = ''10.0.0.7:5000''\<rparr> =
     (\<lparr>headers = [], by_handler = IPTablesHandler\<rparr>,
      [''m1'' \<mapsto> m1_state\<lparr>FirewalledOnce := True\<rparr>])
   \<and> root_handler (\<lambda>n. False) (t0 + 2000000000) [''m1'' \<mapsto> m1_state]
       \<lparr>Method = ''GET'', Host = ''s-c0a80001.7f000001-m1-ma-e.a.tld'',
        RemoteAddr = ''10.0.0.7:5000''\<rparr> =
     (\<lparr>headers = [(''Cache-Control'', ''no-cache, no-store, must-revalidate''),
                        (''Pragma'', ''no-cache''), (''Expires'', ''0''),
                        (''X-DNS-Prefetch-Control'', ''off''),
                        (''X-Singularity-Of-Origin'', ''t'')],
             by_handler = FileServer ''./html''\<rparr>, [''m1'' \<mapsto> m1_state])"
proof -
  let ?req = "\<lparr>Method = ''GET'', Host = ''s-c0a80001.7f000001-m1-ma-e.a.tld'',
               RemoteAddr = ''10.0.0.7:5000''\<rparr>"
  let ?name = "\<lparr>ResponseIPAddr_q = ''192.168.0.1'', ResponseReboundIPAddr_q = ''127.0.0.1'',
                Session = ''m1'', DNSRebindingStrategy_q = ''ma'', Domain = ''.a.tld''\<rparr>"
  have hijacked:
    "root_handler (\<lambda>n. False) (t0 + 4000000000) [''m1'' \<mapsto> m1_state] ?req =
       (\<lparr>headers = [], by_handler = IPTablesHandler\<rparr>,
        [''m1'' \<mapsto> m1_state\<lparr>FirewalledOnce := True\<rparr>])"
    using http_catch_all_trigger
            [of "\<lambda>n. False" ?req ?name "[''m1'' \<mapsto> m1_state]" m1_state "t0 + 4000000000"]
    by (simp add: parse_m1_ma m1_state_def)
  have static:
    "root_handler (\<lambda>n. False) (t0 + 2000000000) [''m1'' \<mapsto> m1_state] ?req =
       (\<lparr>headers = [(''Cache-Control'', ''no-cache, no-store, must-revalidate''),
                        (''Pragma'', ''no-cache''), (''Expires'', ''0''),
                        (''X-DNS-Prefetch-Control'', ''off''),
                        (''X-Singularity-Of-Origin'', ''t'')],
             by_handler = FileServer ''./html''\<rparr>, [''m1'' \<mapsto> m1_state])"
    using http_catch_all_trigger
            [of "\<lambda>n. False" ?req _ "[''m1'' \<mapsto> m1_state]" _ "t0 + 2000000000"]
    by (simp add: parse_m1_ma m1_state_def)
  show ?thesis using hijacked static by simp
qed

section \<open>What a request does to the store\<close>

lemma responder_change_refl: "responder_change st st"
  by (simp add: responder_change_def)

lemma responder_change_index:
  "i = 1 \<or> i = 2 \<Longrightarrow> responder_change st (st\<lparr>LastResponseReboundIPAddr := i\<rparr>)"
  by (auto simp: responder_change_def)

lemma responder_change_stamp:
  "responder_change st st1 \<Longrightarrow>
   responder_change st (st1\<lparr>CurrentQueryTime := c, LastQueryTime := l\<rparr>)"
  by (simp add: responder_change_def)

lemma store_unchanged_case:
  assumes "dcss sid = Some st"
    and "res = Inr (answers, dcss)"
    and "length answers = 1 \<or> length answers = 2"
  shows "\<exists>answers st1. res = Inr (answers, dcss(sid \<mapsto> st1))
           \<and> responder_change st st1 \<and> (length answers = 1 \<or> length answers = 2)"
proof -
  have "dcss(sid \<mapsto> st) = dcss" using assms(1) by (simp add: map_upd_triv)
  then have "res = Inr (answers, dcss(sid \<mapsto> st))" using assms(2) by simp
  then show ?thesis using assms(3) responder_change_refl by blast
qed

lemma call_cases:
  assumes "dcss sid = Some st"
  shows "(call fn rnd sid dcss q = Inl IndexOutOfRange
            \<and> LastResponseReboundIPAddr st \<notin> {0, 1, 2})
         \<or> (\<exists>answers st1. call fn rnd sid dcss q = Inr (answers, dcss(sid \<mapsto> st1))
               \<and> responder_change st st1 \<and> (length answers = 1 \<or> length answers = 2))"
proof (cases fn)
  case RoundRobin
  show ?thesis
  proof (cases "LastResponseReboundIPAddr st \<in> {0, 1, 2}")
    case True
    then show ?thesis using assms RoundRobin
      by (auto simp: DNSRebindFromQueryRoundRobin_def Let_def responder_change_index)
  next
    case False
    then show ?thesis using assms RoundRobin
      by (auto simp: DNSRebindFromQueryRoundRobin_def Let_def)
  qed
next
  case FirstThenSecond
  have "\<exists>answers. call fn rnd sid dcss q = Inr (answers, dcss)
          \<and> (length answers = 1 \<or> length answers = 2)"
    by (auto simp: FirstThenSecond assms DNSRebindFromQueryFirstThenSecond_def Let_def)
  then show ?thesis using store_unchanged_case [of dcss sid st] assms by blast
next
  case Random
  have "\<exists>answers. call fn rnd sid dcss q = Inr (answers, dcss)
          \<and> (length answers = 1 \<or> length answers = 2)"
    by (auto simp: Random assms DNSRebindFromQueryRandom_def Let_def)
  then show ?thesis using store_unchanged_case [of dcss sid st] assms by blast
next
  case MultiA
  have "\<exists>answers. call fn rnd sid dcss q = Inr (answers, dcss)
          \<and> (length answers = 1 \<or> length answers = 2)"
    by (auto simp: MultiA assms DNSRebindFromQueryMultiA_def Let_def)
  then show ?thesis using store_unchanged_case [of dcss sid st] assms by blast
next
  case First
  have "\<exists>answers. call fn rnd sid dcss q = Inr (answers, dcss)
          \<and> (length answers = 1 \<or> length answers = 2)"
    by (auto simp: First assms dnsRebindFirst_def Let_def)
  then show ?thesis using store_unchanged_case [of dcss sid st] assms by blast
qed

lemma store_new_session_eq:
  "store_new_session dcss (Session name) (new_clientState appConfig now name) =
     dcss(Session name \<mapsto> session_base appConfig now name dcss)"
  by (auto simp: store_new_session_def session_base_def map_upd_triv split: option.splits)

lemma build_response_no_panic:
  "length answers = 1 \<or> length answers = 2 \<Longrightarrow> build_response env q answers \<noteq> Inl p"
  by (auto simp: build_response_def split: sum.splits)

lemma encoded_query_parsed:
  assumes parsed: "NewDNSQuery (IsDomainName env) qn = (name, None)"
  shows "(encoded_query env appConfig now rnd dcss m q qn = Inl IndexOutOfRange
            \<and> LastResponseReboundIPAddr (session_base appConfig now name dcss) \<notin> {0, 1, 2})
         \<or> (\<exists>out st1. encoded_query env appConfig now rnd dcss m q qn =
                          Inr (out, dcss(Session name \<mapsto> st1))
               \<and> responder_change (session_base appConfig now name dcss) st1)"
proof -
  let ?sid = "Session name"
  let ?base = "session_base appConfig now name dcss"
  let ?dcss1 = "dcss(?sid \<mapsto> ?base)"
  have "(call (chosen_strategy appConfig name) rnd ?sid ?dcss1 q = Inl IndexOutOfRange
            \<and> LastResponseReboundIPAddr ?base \<notin> {0, 1, 2})
        \<or> (\<exists>answers st1.
              call (chosen_strategy appConfig name) rnd ?sid ?dcss1 q =
                Inr (answers, dcss(?sid \<mapsto> st1))
              \<and> responder_change ?base st1 \<and> (length answers = 1 \<or> length answers = 2))"
    using call_cases [of ?dcss1 ?sid ?base "chosen_strategy appConfig name" rnd q] by simp
  then show ?thesis
  proof
    assume "call (chosen_strategy appConfig name) rnd ?sid ?dcss1 q = Inl IndexOutOfRange
              \<and> LastResponseReboundIPAddr ?base \<notin> {0, 1, 2}"
    then show ?thesis
      by (simp add: encoded_query_def parsed Let_def store_new_session_eq)
  next
    assume "\<exists>answers st1.
              call (chosen_strategy appConfig name) rnd ?sid ?dcss1 q =
                Inr (answers, dcss(?sid \<mapsto> st1))
              \<and> responder_change ?base st1 \<and> (length answers = 1 \<or> length answers = 2)"
    then obtain answers st1 where
      c: "call (chosen_strategy appConfig name) rnd ?sid ?dcss1 q =
            Inr (answers, dcss(?sid \<mapsto> st1))"
      and ch: "responder_change ?base st1"
      and len: "length answers = 1 \<or> length answers = 2"
      by auto
    show ?thesis
    proof (cases "build_response env q answers")
      case (Inl p)
      then show ?thesis using build_response_no_panic [OF len] by blast
    next
      case (Inr b)
      show ?thesis
      proof (cases b)
        case (Inl err)
        then have "encoded_query env appConfig now rnd dcss m q qn =
                     Inr (Return (Some m), dcss(?sid \<mapsto> st1))"
          using Inr c by (simp add: encoded_query_def parsed Let_def store_new_session_eq)
        then show ?thesis using ch by blast
      next
        case (Inr response)
        have "responder_change ?base (st1\<lparr>CurrentQueryTime := now, LastQueryTime := now\<rparr>)"
          using ch by (rule responder_change_stamp)
        moreover have "encoded_query env appConfig now rnd dcss m q qn =
            Inr (Continue (m\<lparr>Answer := Answer m @ List.map_filter (NewRR env) response\<rparr>),
                 dcss(?sid \<mapsto> st1\<lparr>CurrentQueryTime := now, LastQueryTime := now\<rparr>))"
          using Inr \<open>build_response env q answers = Inr b\<close> c
          by (simp add: encoded_query_def parsed Let_def store_new_session_eq)
        ultimately show ?thesis by blast
      qed
    qed
  qed
qed

lemma encoded_query_effect:
  "responder_effect appConfig now dcss (encoded_query env appConfig now rnd dcss m q qn)"
proof (cases "NewDNSQuery (IsDomainName env) qn")
  case (Pair name err)
  show ?thesis
  proof (cases err)
    case None
    then show ?thesis
      using encoded_query_parsed [of env qn name appConfig now rnd dcss m q] Pair
      unfolding responder_effect_def by blast
  next
    case (Some e)
    then show ?thesis using Pair
      by (simp add: responder_effect_def encoded_query_def)
  qed
qed

lemma handle_question_effect:
  "responder_effect appConfig now dcss (handle_question env appConfig now rnd remote dcss m q)"
proof -
  have trivial: "\<And>out. responder_effect appConfig now dcss (Inr (out, dcss))"
    by (simp add: responder_effect_def)
  show ?thesis
    using encoded_query_effect [of appConfig now dcss env rnd m q "ToLower (Name q)"]
    by (auto simp: handle_question_def Let_def trivial split: option.splits)
qed

lemma questions_loop_effect:
  "length qs \<le> 1 \<Longrightarrow>
   responder_effect appConfig now dcss (questions_loop env appConfig now rnd remote dcss m qs)"
proof (cases qs)
  case Nil
  then show ?thesis by (simp add: responder_effect_def)
next
  case (Cons q rest)
  assume "length qs \<le> 1"
  then have rest: "rest = []" using Cons by simp
  show ?thesis
    using handle_question_effect [of appConfig now dcss env rnd remote m q]
    unfolding responder_effect_def Cons rest
    by (auto split: sum.splits prod.splits outcome.splits)
qed

lemma handler_effect:
  "responder_effect appConfig now dcss (MakeRebindDNSHandler env appConfig now rnd remote dcss r)"
proof (cases "Opcode r = OpcodeQuery")
  case True
  have "length (Question (SetReply r)) \<le> 1" by (simp add: SetReply_def)
  then show ?thesis using True
    by (simp add: MakeRebindDNSHandler_def Let_def questions_loop_effect)
next
  case False
  then show ?thesis by (simp add: MakeRebindDNSHandler_def Let_def responder_effect_def)
qed

lemma index_in_cycleD:
  "index_in_cycle dcss \<Longrightarrow> dcss sk = Some sv \<Longrightarrow> LastResponseReboundIPAddr sv \<in> {0, 1, 2}"
  unfolding index_in_cycle_def by blast

lemma index_in_cycle_update:
  "index_in_cycle dcss \<Longrightarrow> LastResponseReboundIPAddr sv \<in> {0, 1, 2} \<Longrightarrow>
   index_in_cycle (dcss(sk \<mapsto> sv))"
  unfolding index_in_cycle_def by (simp del: insert_iff)

lemma session_base_index:
  "index_in_cycle dcss \<Longrightarrow>
   LastResponseReboundIPAddr (session_base appConfig now name dcss) \<in> {0, 1, 2}"
  using index_in_cycleD [of dcss "Session name"]
  by (cases "dcss (Session name)") (simp_all add: session_base_def new_clientState_def)

lemma root_handler_store:
  "snd (root_handler isDomainName now dcss req) = dcss
   \<or> (\<exists>sid st. dcss sid = Some st
         \<and> snd (root_handler isDomainName now dcss req) = dcss(sid \<mapsto> st\<lparr>FirewalledOnce := True\<rparr>))"
  by (auto simp: root_handler_def Let_def split: prod.splits option.splits)

lemma expire_entry:
  "ExpireOldEntries clock duration dcss sk = None
   \<or> ExpireOldEntries clock duration dcss sk = dcss sk"
  by (simp add: ExpireOldEntries_def Let_def split: option.splits)

lemma step_index_in_cycle:
  assumes inv: "index_in_cycle dcss"
  shows "\<exists>dcss1. step env appConfig dcss e = Inr dcss1 \<and> index_in_cycle dcss1"
proof (cases e)
  case (DNSRequest now rnd remote r)
  let ?res = "MakeRebindDNSHandler env appConfig now rnd remote dcss r"
  have eff: "responder_effect appConfig now dcss ?res" by (rule handler_effect)
  have base: "\<And>name. LastResponseReboundIPAddr (session_base appConfig now name dcss) \<in> {0, 1, 2}"
    using inv by (rule session_base_index)
  from eff consider
      (same) out where "?res = Inr (out, dcss)"
    | (upd) name out st1 where "?res = Inr (out, dcss(Session name \<mapsto> st1))"
        "responder_change (session_base appConfig now name dcss) st1"
    using base unfolding responder_effect_def by blast
  then show ?thesis
  proof cases
    case same
    then show ?thesis using inv DNSRequest by simp
  next
    case upd
    have "LastResponseReboundIPAddr st1 \<in> {0, 1, 2}"
      using upd(2) base [of name] by (auto simp: responder_change_def)
    then have "index_in_cycle (dcss(Session name \<mapsto> st1))"
      using inv by (rule index_in_cycle_update [rotated])
    then show ?thesis using upd(1) DNSRequest by simp
  qed
next
  case (HTTPRequest now req)
  have "index_in_cycle (snd (root_handler (IsDomainName env) now dcss req))"
    using root_handler_store [of "IsDomainName env" now dcss req]
  proof
    assume "snd (root_handler (IsDomainName env) now dcss req) = dcss"
    then show ?thesis using inv by simp
  next
    assume "\<exists>sid st. dcss sid = Some st \<and>
              snd (root_handler (IsDomainName env) now dcss req) =
                dcss(sid \<mapsto> st\<lparr>FirewalledOnce := True\<rparr>)"
    then obtain sid st where st: "dcss sid = Some st"
      and eq: "snd (root_handler (IsDomainName env) now dcss req) =
                 dcss(sid \<mapsto> st\<lparr>FirewalledOnce := True\<rparr>)"
      by blast
    have "LastResponseReboundIPAddr (st\<lparr>FirewalledOnce := True\<rparr>) \<in> {0, 1, 2}"
      using index_in_cycleD [OF inv st] by simp
    then show ?thesis unfolding eq using inv by (rule index_in_cycle_update [rotated])
  qed
  then show ?thesis using HTTPRequest by simp
next
  case (ExpireTick clock duration)
  have "index_in_cycle (ExpireOldEntries clock duration dcss)"
    unfolding index_in_cycle_def
  proof (intro allI impI)
    fix sk sv
    assume "ExpireOldEntries clock duration dcss sk = Some sv"
    then have "dcss sk = Some sv" using expire_entry [of clock duration dcss sk] by auto
    then show "LastResponseReboundIPAddr sv \<in> {0, 1, 2}"
      using inv by (rule index_in_cycleD [rotated])
  qed
  then show ?thesis using ExpireTick by simp
qed

lemma run_index_in_cycle:
  "index_in_cycle dcss \<Longrightarrow>
   \<exists>dcss1. run env appConfig dcss es = Inr dcss1 \<and> index_in_cycle dcss1"
proof (induction es arbitrary: dcss)
  case Nil
  then show ?case by simp
next
  case (Cons e es)
  from step_index_in_cycle [OF Cons.prems, of env appConfig e]
  obtain dcss1 where s: "step env appConfig dcss e = Inr dcss1" and i: "index_in_cycle dcss1"
    by blast
  from Cons.IH [OF i] show ?case using s by simp
qed

lemma step_latched:
  assumes l: "latched session target dcss"
    and s: "step env appConfig dcss e = Inr dcss1"
  shows "latched session target dcss1 \<or> (is_sweep e \<and> dcss1 session = None)"
proof (cases e)
  case (DNSRequest now rnd remote r)
  let ?res = "MakeRebindDNSHandler env appConfig now rnd remote dcss r"
  from l obtain st where st: "dcss session = Some st" "FirewalledOnce st = True"
      "ResponseReboundIPAddr st = target"
    by (auto simp: latched_def)
  obtain out where res: "?res = Inr (out, dcss1)"
    using s DNSRequest by (auto split: sum.splits)
  have "responder_effect appConfig now dcss ?res" by (rule handler_effect)
  then consider
      (same) "dcss1 = dcss"
    | (upd) name st1 where "dcss1 = dcss(Session name \<mapsto> st1)"
        "responder_change (session_base appConfig now name dcss) st1"
    using res unfolding responder_effect_def by auto
  then have "latched session target dcss1"
  proof cases
    case same
    then show ?thesis using l by simp
  next
    case upd
    show ?thesis
    proof (cases "Session name = session")
      case True
      then have "session_base appConfig now name dcss = st"
        using st(1) by (simp add: session_base_def)
      then show ?thesis using upd True st
        by (auto simp: latched_def responder_change_def)
    next
      case False
      then show ?thesis using upd l by (auto simp: latched_def)
    qed
  qed
  then show ?thesis by simp
next
  case (HTTPRequest now req)
  have "latched session target (snd (root_handler (IsDomainName env) now dcss req))"
    using root_handler_store [of "IsDomainName env" now dcss req] l
    by (auto simp: latched_def)
  then show ?thesis using s HTTPRequest by simp
next
  case (ExpireTick clock duration)
  then show ?thesis
    using s l expire_entry [of clock duration dcss session]
    by (auto simp: latched_def)
qed

lemma run_index_in_cycle_from_start:
  assumes "run env appConfig Map.empty es = Inr dcss" and "dcss session = Some st"
  shows "LastResponseReboundIPAddr st \<in> {0, 1, 2}"
proof -
  have "index_in_cycle Map.empty" by (simp add: index_in_cycle_def)
  then obtain dcss1 where "run env appConfig Map.empty es = Inr dcss1" and "index_in_cycle dcss1"
    using run_index_in_cycle [of Map.empty env appConfig es] by blast
  then have "index_in_cycle dcss" using assms(1) by simp
  then show ?thesis using assms(2) index_in_cycleD [of dcss session st] by blast
qed

section \<open>Running the examples\<close>

lemma example_lib_fields:
  "ParseIP example_lib = ParseIP_dotted" "NewRR example_lib = Some"
  "IsDomainName example_lib = (\<lambda>name. False)"
  by (simp_all add: example_lib_def)

lemma not_ignored: "addrInIPAddressList (UDPAddr [10, 0, 0, 7]) [[10, 0, 0, 9]] = False"
  by code_simp

lemma parse_xyz_rr:
  "NewDNSQuery isDomainName ''s-0a000001.0a000002-xyz-rr-e.a.tld'' =
     (\<lparr>ResponseIPAddr_q = ''10.0.0.1'', ResponseReboundIPAddr_q = ''10.0.0.2'',
       Session = ''xyz'', DNSRebindingStrategy_q = ''rr'', Domain = ''.a.tld''\<rparr>, None)"
  by code_simp

lemma lower_xyz_rr:
  "ToLower ''s-0a000001.0a000002-xyz-rr-e.a.tld'' = ''s-0a000001.0a000002-xyz-rr-e.a.tld''"
  by code_simp

lemma build_xyz_rr:
  "build_response example_lib
     \<lparr>Name = ''s-0a000001.0a000002-xyz-rr-e.a.tld'', Qtype = TypeA, Qclass = ClassINET\<rparr>
     [''10.0.0.1''] =
   Inr (Inr [''s-0a000001.0a000002-xyz-rr-e.a.tld 0 IN A 10.0.0.1''])"
  by code_simp

lemma run_xyz_rr:
  "run example_lib example_config Map.empty
     [DNSRequest t0 0 (UDPAddr [10, 0, 0, 7])
        (request ''s-0a000001.0a000002-xyz-rr-e.a.tld'' TypeA)] =
   Inr [''xyz'' \<mapsto> xyz_state]"
  by (simp add: MakeRebindDNSHandler_def SetReply_def request_def handle_question_def
        Let_def lower_xyz_rr HasPrefix_def encoded_query_def parse_xyz_rr example_lib_fields
        example_config_def not_ignored chosen_strategy_def DNSRebindingStrategy_def
        store_new_session_def new_clientState_def DNSRebindFromQueryRoundRobin_def
        build_xyz_rr OpcodeQuery_def xyz_state_def List.map_filter_def)

lemma replies_xyz_rr:
  "replies example_lib example_config Map.empty
       [(t0, 0, UDPAddr [10, 0, 0, 7], request ''s-0a000001.0a000002-xyz-rr-e.a.tld'' TypeA),
        (t0 + 1000000000, 0, UDPAddr [10, 0, 0, 7],
           request ''s-0a000001.0a000002-xyz-rr-e.a.tld'' TypeA),
        (t0 + 2000000000, 0, UDPAddr [10, 0, 0, 7],
           request ''s-0a000001.0a000002-xyz-rr-e.a.tld'' TypeA)] =
     Inr [Some [''s-0a000001.0a000002-xyz-rr-e.a.tld 0 IN A 10.0.0.1''],
          Some [''s-0a000001.0a000002-xyz-rr-e.a.tld 0 IN A 10.0.0.2''],
          Some [''s-0a000001.0a000002-xyz-rr-e.a.tld 0 IN A 10.0.0.1'']]"
  by code_simp

section \<open>The round-robin strategy\<close>

lemma round_robin_step:
  assumes "dcss session = Some st" and "LastResponseReboundIPAddr st \<in> {0, 1, 2}"
  shows "DNSRebindFromQueryRoundRobin session dcss q =
     (let new_index = (if LastResponseReboundIPAddr st = 1 then 2 else 1) in
      Inr ([if new_index = 1 then ResponseIPAddr st else ResponseReboundIPAddr st],
           dcss(session \<mapsto> st\<lparr>LastResponseReboundIPAddr := new_index\<rparr>)))"
  using assms by (auto simp: DNSRebindFromQueryRoundRobin_def Let_def)

text \<open>
  Claim C4. In every store that the server reaches from the empty one, by requests to
  the responder, requests to the catch-all route and sweeps, the round-robin index
  of every session is 0, 1 or 2. The strategy moves it from 0 to 1, from 1 to 2 and
  from 2 to 1, stores the new index, and answers with the attacker address when the
  new index is 1 and with the rebound target when it is 2. Three queries
  \<^verbatim>\<open>s-0a000001.0a000002-xyz-rr-e.a.tld\<close> for a new session are answered with
  \<open>10.0.0.1\<close>, \<open>10.0.0.2\<close> and \<open>10.0.0.1\<close>.
\<close>

theorem round_robin_cycle:
  assumes "run env appConfig Map.empty es = Inr dcss" and "dcss session = Some st"
  shows "LastResponseReboundIPAddr st \<in> {0, 1, 2}
    \<and> DNSRebindFromQueryRoundRobin session dcss q =
        (let new_index = (if LastResponseReboundIPAddr st = 1 then 2 else 1) in
         Inr ([if new_index = 1 then ResponseIPAddr st else ResponseReboundIPAddr st],
              dcss(session \<mapsto> st\<lparr>LastResponseReboundIPAddr := new_index\<rparr>)))
    \<and> replies example_lib example_config Map.empty
       [(t0, 0, UDPAddr [10, 0, 0, 7], request ''s-0a000001.0a000002-xyz-rr-e.a.tld'' TypeA),
        (t0 + 1000000000, 0, UDPAddr [10, 0, 0, 7],
           request ''s-0a000001.0a000002-xyz-rr-e.a.tld'' TypeA),
        (t0 + 2000000000, 0, UDPAddr [10, 0, 0, 7],
           request ''s-0a000001.0a000002-xyz-rr-e.a.tld'' TypeA)] =
     Inr [Some [''s-0a000001.0a000002-xyz-rr-e.a.tld 0 IN A 10.0.0.1''],
          Some [''s-0a000001.0a000002-xyz-rr-e.a.tld 0 IN A 10.0.0.2''],
          Some [''s-0a000001.0a000002-xyz-rr-e.a.tld 0 IN A 10.0.0.1'']]"
proof -
  have idx: "LastResponseReboundIPAddr st \<in> {0, 1, 2}"
    using assms by (rule run_index_in_cycle_from_start)
  show ?thesis
    using idx assms(2) round_robin_step [of dcss session st q] replies_xyz_rr by blast
qed

text \<open>The store after the first query of the example, and the second answer.\<close>

theorem round_robin_cycle_witness:
  "run example_lib example_config Map.empty
     [DNSRequest t0 0 (UDPAddr [10, 0, 0, 7])
        (request ''s-0a000001.0a000002-xyz-rr-e.a.tld'' TypeA)] =
     Inr [''xyz'' \<mapsto> xyz_state]
   \<and> LastResponseReboundIPAddr xyz_state \<in> {0, 1, 2}
   \<and> DNSRebindFromQueryRoundRobin ''xyz'' [''xyz'' \<mapsto> xyz_state]
        \<lparr>Name = ''s-0a000001.0a000002-xyz-rr-e.a.tld'', Qtype = TypeA, Qclass = ClassINET\<rparr> =
       Inr ([''10.0.0.2''], [''xyz'' \<mapsto> xyz_state\<lparr>LastResponseReboundIPAddr := 2\<rparr>])"
  using round_robin_cycle
          [of example_lib example_config
              "[DNSRequest t0 0 (UDPAddr [10, 0, 0, 7])
                  (request ''s-0a000001.0a000002-xyz-rr-e.a.tld'' TypeA)]"
              "[''xyz'' \<mapsto> xyz_state]" "''xyz''" xyz_state
              "\<lparr>Name = ''s-0a000001.0a000002-xyz-rr-e.a.tld'', Qtype = TypeA,
                Qclass = ClassINET\<rparr>"]
        run_xyz_rr
  by (simp add: xyz_state_def Let_def)

section \<open>The TTL of the records\<close>

text \<open>
  Claim C5, as stated, gives the second record of a multi-answer response the TTL 0.
  A second answer that is a name becomes a CNAME record, and its TTL is 10: the
  multi-A query \<^verbatim>\<open>s-c0a80001.localhost-m1-ma-e.a.tld.\<close> is answered with an A record
  of TTL 10 and a CNAME record of TTL 10.
\<close>

theorem second_record_cname_has_ttl_10:
  "replies example_lib example_config Map.empty
       [(t0, 0, UDPAddr [10, 0, 0, 7], request ''s-c0a80001.localhost-m1-ma-e.a.tld.'' TypeA)] =
     Inr [Some [''s-c0a80001.localhost-m1-ma-e.a.tld. 10 IN A 192.168.0.1'',
                ''s-c0a80001.localhost-m1-ma-e.a.tld. 10 IN CNAME localhost.'']]"
  by code_simp

text \<open>
  Claim C5, amended. In a multi-answer response an answer that parses as an address
  becomes an A or AAAA record with TTL 10 when it is the first and with TTL 0 when
  it is the second; a single answer that parses as an address of the family that
  the question asks for becomes a record with TTL 0 (of the other family: no record,
  the reply is given up); and an answer that does not parse as an address becomes,
  in every position, a CNAME record for the answer followed by a dot, with TTL 10.
\<close>

theorem ttl_policy:
  "build_response env q [a0, a1] =
     Inr (Inr [case ParseIP env a0 of
                 Some ip \<Rightarrow> Name q @ '' 10 IN '' @ (if To4 ip = None then ''AAAA'' else ''A'')
                              @ '' '' @ a0
               | None \<Rightarrow> Name q @ '' 10 IN CNAME '' @ a0 @ ''.'',
               case ParseIP env a1 of
                 Some ip \<Rightarrow> Name q @ '' 0 IN '' @ (if To4 ip = None then ''AAAA'' else ''A'')
                              @ '' '' @ a1
               | None \<Rightarrow> Name q @ '' 10 IN CNAME '' @ a1 @ ''.''])
   \<and> build_response env q [a] =
       (case ParseIP env a of
          Some ip \<Rightarrow>
            if (To4 ip = None \<and> Qtype q = TypeAAAA) \<or> (To4 ip \<noteq> None \<and> Qtype q = TypeA)
            then Inr (Inr [Name q @ '' 0 IN '' @ (if To4 ip = None then ''AAAA'' else ''A'')
                             @ '' '' @ a])
            else Inr (Inl Mismatch)
        | None \<Rightarrow> Inr (Inr [Name q @ '' 10 IN CNAME '' @ a @ ''.'']))"
  by (auto simp: build_response_def respond_def Let_def split: option.splits)

section \<open>Names that the codec rejects\<close>

text \<open>Replacing the doubled dashes creates neither a start tag nor an end tag, and a
  text without the separator is split into one piece.\<close>

lemma replace_escape_Cons:
  "replace_from ''--'' ''_'' (c # cs) =
     (if c = CHR ''-'' \<and> prefix ''-'' cs then CHR ''_'' # replace_from ''--'' ''_'' (drop 1 cs)
      else c # replace_from ''--'' ''_'' cs)"
  by (cases cs) auto

lemma replace_escape_other:
  "\<not> (c = CHR ''-'' \<and> prefix ''-'' cs) \<Longrightarrow>
   replace_from ''--'' ''_'' (c # cs) = c # replace_from ''--'' ''_'' cs"
  by (cases cs) auto

lemma replace_escape_start:
  assumes "\<not> prefix ''s-'' s"
  shows "\<not> prefix ''s-'' (replace_from ''--'' ''_'' s)"
proof (cases s)
  case Nil
  then show ?thesis by simp
next
  case (Cons c cs)
  show ?thesis
  proof (cases cs)
    case Nil
    then show ?thesis using Cons by simp
  next
    case (Cons d ds)
    then show ?thesis using assms \<open>s = c # cs\<close>
      by (cases ds) (auto simp: replace_escape_Cons)
  qed
qed

lemma Replace_keeps_missing_start:
  "\<not> HasPrefix s ''s-'' \<Longrightarrow> \<not> HasPrefix (Replace s ''--'' ''_'') ''s-''"
  using replace_escape_start [of s] by (simp add: HasPrefix_def Replace_def)

lemma NewDNSQuery_no_start_tag:
  "\<not> HasPrefix qname ''s-'' \<Longrightarrow> NewDNSQuery isDomainName qname = (new_DNSQuery, Some NoStartTag)"
  using Replace_keeps_missing_start [of qname]
  by (simp add: NewDNSQuery_def Let_def)

lemma replace_escape_keeps_e_dot:
  assumes "prefix ''e.'' (replace_from ''--'' ''_'' s)"
  shows "prefix ''e.'' s"
proof (cases s)
  case Nil
  then show ?thesis using assms by simp
next
  case (Cons c cs)
  show ?thesis
  proof (cases cs)
    case Nil
    then show ?thesis using Cons assms by (simp add: replace_escape_Cons split: if_splits)
  next
    case (Cons d ds)
    then show ?thesis using assms \<open>s = c # cs\<close>
      by (cases ds) (auto simp: replace_escape_Cons split: if_splits)
  qed
qed

lemma replace_escape_end:
  "\<not> sublist ''-e.'' s \<Longrightarrow> \<not> sublist ''-e.'' (replace_from ''--'' ''_'' s)"
proof (induction "length s" arbitrary: s rule: less_induct)
  case less
  show ?case
  proof (cases s)
    case Nil
    then show ?thesis by simp
  next
    case (Cons c cs)
    have n: "\<not> sublist ''-e.'' cs" and np: "\<not> prefix ''-e.'' (c # cs)"
      using less.prems Cons by (auto simp: sublist_Cons_right)
    show ?thesis
    proof (cases "c = CHR ''-'' \<and> prefix ''-'' cs")
      case True
      then obtain rest where cs: "cs = CHR ''-'' # rest" by (cases cs) auto
      have eq: "replace_from ''--'' ''_'' s = CHR ''_'' # replace_from ''--'' ''_'' rest"
        using True Cons cs by simp
      have "\<not> sublist ''-e.'' rest" using n cs by (auto simp: sublist_Cons_right)
      then have "\<not> sublist ''-e.'' (replace_from ''--'' ''_'' rest)"
        using less.hyps [of rest] Cons cs by simp
      then show ?thesis unfolding eq by (simp add: sublist_Cons_right)
    next
      case False
      have eq: "replace_from ''--'' ''_'' s = c # replace_from ''--'' ''_'' cs"
        unfolding Cons using False by (rule replace_escape_other)
      have ih: "\<not> sublist ''-e.'' (replace_from ''--'' ''_'' cs)"
        using less.hyps [of cs] n Cons by simp
      have "\<not> prefix ''-e.'' (c # replace_from ''--'' ''_'' cs)"
        using np replace_escape_keeps_e_dot [of cs] by auto
      then show ?thesis unfolding eq using ih by (simp only: sublist_Cons_right simp_thms)
    qed
  qed
qed

lemma Replace_keeps_missing_end:
  "\<not> sublist ''-e.'' s \<Longrightarrow> \<not> sublist ''-e.'' (Replace s ''--'' ''_'')"
  using replace_escape_end [of s] by (simp add: Replace_def)

lemma split_absent:
  "sep \<noteq> [] \<Longrightarrow> \<not> sublist sep s \<Longrightarrow> split_from sep acc s = [rev acc @ s]"
proof (induction s arbitrary: acc)
  case Nil
  then show ?case by simp
next
  case (Cons c cs)
  have "\<not> prefix sep (c # cs)" and "\<not> sublist sep cs"
    using Cons.prems(2) by (auto simp: sublist_Cons_right)
  then show ?case using Cons.IH [of "c # acc"] Cons.prems(1) by simp
qed

lemma Split_absent: "\<not> sublist ''-e.'' s \<Longrightarrow> Split s ''-e.'' = [s]"
  using split_absent [of "''-e.''" s "[]"] by (simp add: Split_def)

lemma sublist_drop: "\<not> sublist xs s \<Longrightarrow> \<not> sublist xs (drop n s)"
  by (metis append_take_drop_id sublist_append_leftI sublist_order.order_trans)

lemma TrimPrefix_keeps_missing_end:
  "\<not> sublist ''-e.'' s \<Longrightarrow> \<not> sublist ''-e.'' (TrimPrefix s p)"
  by (simp add: TrimPrefix_def sublist_drop)

lemma NewDNSQuery_no_end_tag:
  assumes "\<not> sublist ''-e.'' qname"
  shows "\<exists>e. NewDNSQuery isDomainName qname = (new_DNSQuery, Some e)"
proof -
  have "\<not> sublist ''-e.'' (TrimPrefix (Replace qname ''--'' ''_'') ''s-'')"
    using assms by (intro TrimPrefix_keeps_missing_end Replace_keeps_missing_end)
  then have "Split (TrimPrefix (Replace qname ''--'' ''_'') ''s-'') ''-e.'' =
               [TrimPrefix (Replace qname ''--'' ''_'') ''s-'']"
    by (rule Split_absent)
  then show ?thesis
    by (simp add: NewDNSQuery_def Let_def)
qed

text \<open>The codec, step by step: a name is rejected with the empty record, or it has
  three fields and two hosts that decode.\<close>

lemma NewDNSQuery_shape:
  "(\<exists>e. NewDNSQuery isDomainName qname = (new_DNSQuery, Some e))
   \<or> (length (dash_fields qname) = 3 \<and> DecodeString (host1 qname) \<noteq> None
        \<and> (\<exists>h. second_host isDomainName (host2 qname) = Inr h))"
proof -
  define q1 where "q1 = Replace qname ''--'' ''_''"
  define split1 where "split1 = Split (TrimPrefix q1 ''s-'') ''-e.''"
  define split2 where "split2 = Split (split1 ! 0) ''-''"
  define hosts where "hosts = Cut (split2 ! 0) ''.''"
  have unfolded: "NewDNSQuery isDomainName qname =
     (if \<not> HasPrefix q1 ''s-'' then (new_DNSQuery, Some NoStartTag)
      else if length split1 \<noteq> 2 then (new_DNSQuery, Some NoEndTag)
      else if length (split1 ! 1) < 3 \<and> \<not> ContainsAny (split1 ! 1) ''.''
      then (new_DNSQuery, Some BadDomain)
      else if length split2 \<noteq> 3 then (new_DNSQuery, Some BadStart)
      else if \<not> snd (snd hosts) then (new_DNSQuery, Some NoHosts)
      else case DecodeString (fst hosts) of
             None \<Rightarrow> (new_DNSQuery, Some BadFirstHost)
           | Some elem0 \<Rightarrow>
              (case second_host isDomainName (fst (snd hosts)) of
                 Inl e \<Rightarrow> (new_DNSQuery, Some e)
               | Inr elem1Str \<Rightarrow>
                  (let name1 = new_DNSQuery\<lparr>ResponseIPAddr_q := IP_String elem0,
                                             ResponseReboundIPAddr_q := elem1Str,
                                             Session := split2 ! 1\<rparr> in
                   if length (Session name1) = 0 then (name1, Some BadSession)
                   else (name1\<lparr>DNSRebindingStrategy_q := split2 ! 2,
                               Domain := ''.'' @ split1 ! 1\<rparr>, None))))"
    unfolding NewDNSQuery_def q1_def split1_def split2_def hosts_def Let_def
    by (auto split: prod.splits option.splits sum.splits)
  show ?thesis
  proof (cases "HasPrefix q1 ''s-'' \<and> length split1 = 2 \<and> length split2 = 3")
    case False
    then show ?thesis unfolding unfolded by auto
  next
    case True
    then have "hd split1 = split1 ! 0" by (cases split1) auto
    then have df: "dash_fields qname = split2"
      by (simp add: dash_fields_def split2_def split1_def q1_def)
    have "hd split2 = split2 ! 0" using True by (cases split2) auto
    then have h1: "host1 qname = fst hosts" and h2: "host2 qname = fst (snd hosts)"
      by (simp_all add: host1_def host2_def df hosts_def)
    show ?thesis unfolding unfolded h1 h2 df
      by (auto split: option.splits sum.splits)
  qed
qed

lemma second_host_rejects:
  "DecodeString h = None \<Longrightarrow> h \<noteq> ''localhost'' \<Longrightarrow> \<not> isDomainName (Replace h ''_'' ''-'')
   \<Longrightarrow> second_host isDomainName h = Inl BadCNAME"
  by (simp add: second_host_def Let_def)

lemma NewDNSQuery_failure_mode:
  assumes "failure_mode isDomainName qname"
  shows "\<exists>e. NewDNSQuery isDomainName qname = (new_DNSQuery, Some e)"
proof (cases "\<not> HasPrefix qname ''s-'' \<or> \<not> sublist ''-e.'' qname")
  case True
  then show ?thesis
    using NewDNSQuery_no_start_tag [of qname isDomainName]
          NewDNSQuery_no_end_tag [of qname isDomainName] by blast
next
  case False
  then have "length (dash_fields qname) \<noteq> 3
      \<or> DecodeString (host1 qname) = None
      \<or> second_host isDomainName (host2 qname) = Inl BadCNAME"
    using assms second_host_rejects [of "host2 qname" isDomainName]
    by (auto simp: failure_mode_def)
  then show ?thesis
    using NewDNSQuery_shape [of isDomainName qname] by auto
qed

section \<open>The responder on names without the start tag\<close>

lemma handler_first_question:
  "Opcode r = OpcodeQuery \<Longrightarrow> Question r = q # qs \<Longrightarrow>
   MakeRebindDNSHandler env appConfig now rnd remote dcss r =
     (case handle_question env appConfig now rnd remote dcss (SetReply r) q of
        Inl p \<Rightarrow> Inl p
      | Inr (Return written, dcss1) \<Rightarrow> Inr (written, dcss1)
      | Inr (Continue m1, dcss1) \<Rightarrow> Inr (Some m1, dcss1))"
  by (simp add: MakeRebindDNSHandler_def Let_def SetReply_def
           split: sum.splits prod.splits outcome.splits)

lemma encoded_query_rejected:
  "NewDNSQuery (IsDomainName env) qn = (name, Some e) \<Longrightarrow>
   encoded_query env appConfig now rnd dcss m q qn = Inr (Return None, dcss)"
  by (simp add: encoded_query_def)

lemma request_fields:
  "Opcode (request qname qtype) = OpcodeQuery"
  "Question (request qname qtype) = [\<lparr>Name = qname, Qtype = qtype, Qclass = ClassINET\<rparr>]"
  by (simp_all add: request_def)

lemma tld_facts:
  "HasPrefix (ToLower ''tld.'') ''s-'' = False"
  "addrInIPAddressList (UDPAddr [10, 0, 0, 9]) (IgnoreDNSRequestFrom example_config) = True"
  "addrInIPAddressList (UDPAddr [10, 0, 0, 7]) (IgnoreDNSRequestFrom example_config) = False"
  "ParseIP_dotted ''203.0.113.5'' =
     Some [0, 0, 0, 0, 0, 0, 0, 0, 0, 0, 255, 255, 203, 0, 113, 5]"
  "To4 [0, 0, 0, 0, 0, 0, 0, 0, 0, 0, 255, 255, 203, 0, 113, 5] = Some [203, 0, 113, 5]"
  "ResponseIPAddr_cfg example_config = ''203.0.113.5''"
  by code_simp+

text \<open>
  Claim C6, as stated, has every A or AAAA query for a name without the start tag
  answered with one record. The responder first looks the peer up in the ignore
  list (line 338): the query \<open>tld.\<close> of type A from the listed peer \<open>10.0.0.9\<close> gets
  no reply, although the attacker address \<open>203.0.113.5\<close> of the configuration parses.
\<close>

theorem ignored_peer_gets_no_answer:
  "ParseIP example_lib (ResponseIPAddr_cfg example_config) =
     Some [0, 0, 0, 0, 0, 0, 0, 0, 0, 0, 255, 255, 203, 0, 113, 5]
   \<and> replies example_lib example_config Map.empty
       [(t0, 0, UDPAddr [10, 0, 0, 9], request ''tld.'' TypeA)] = Inr [None]"
  by code_simp

text \<open>
  Claim C6, amended. For an A or AAAA query whose lower-cased name does not begin with
  the start tag: a peer on the ignore list gets no reply; for any other peer, when
  the attacker address of the configuration does not parse the query is dropped,
  and when it parses the record text is the name, the TTL 0, the type A when the
  address has a 4-byte form and AAAA when it has none, and the address as it is
  configured; the reply has exactly this record when the DNS library accepts the
  text, and the query is dropped when the library does not. In every case the store
  is as it was.
\<close>

theorem qname_minimisation_fallback:
  assumes "Opcode r = OpcodeQuery" and "Question r = q # qs"
    and "Qtype q = TypeA \<or> Qtype q = TypeAAAA"
    and "\<not> HasPrefix (ToLower (Name q)) ''s-''"
  shows "(addrInIPAddressList remote (IgnoreDNSRequestFrom appConfig) \<longrightarrow>
            MakeRebindDNSHandler env appConfig now rnd remote dcss r = Inr (None, dcss))
     \<and> (\<not> addrInIPAddressList remote (IgnoreDNSRequestFrom appConfig) \<longrightarrow>
            MakeRebindDNSHandler env appConfig now rnd remote dcss r =
              (case ParseIP env (ResponseIPAddr_cfg appConfig) of
                 None \<Rightarrow> Inr (None, dcss)
               | Some address \<Rightarrow>
                  (case NewRR env (Name q @ '' 0 IN ''
                                     @ (if To4 address = None then ''AAAA'' else ''A'')
                                     @ '' '' @ ResponseIPAddr_cfg appConfig) of
                     None \<Rightarrow> Inr (None, dcss)
                   | Some rr \<Rightarrow>
                       Inr (Some \<lparr>Opcode = OpcodeQuery, Question = [q], Answer = [rr]\<rparr>,
                            dcss))))"
proof -
  have rejected: "encoded_query env appConfig now rnd dcss (SetReply r) q (ToLower (Name q)) =
                    Inr (Return None, dcss)"
    using NewDNSQuery_no_start_tag [of "ToLower (Name q)" "IsDomainName env"] assms(4)
          encoded_query_rejected [of env "ToLower (Name q)" new_DNSQuery NoStartTag]
    by simp
  show ?thesis
    using assms rejected
    by (auto simp: handler_first_question handle_question_def qname_minimisation_def
                   Let_def SetReply_def
             split: option.splits)
qed

text \<open>The query \<open>tld.\<close> of type A, from the ignored peer and from another one.\<close>

theorem qname_minimisation_fallback_witness:
  "MakeRebindDNSHandler example_lib example_config t0 0 (UDPAddr [10, 0, 0, 9])
       [''m1'' \<mapsto> m1_state] (request ''tld.'' TypeA) =
     Inr (None, [''m1'' \<mapsto> m1_state])
   \<and> MakeRebindDNSHandler example_lib example_config t0 0 (UDPAddr [10, 0, 0, 7])
       [''m1'' \<mapsto> m1_state] (request ''tld.'' TypeA) =
     Inr (Some \<lparr>Opcode = OpcodeQuery,
                Question = [\<lparr>Name = ''tld.'', Qtype = TypeA, Qclass = ClassINET\<rparr>],
                Answer = [''tld. 0 IN A 203.0.113.5'']\<rparr>,
          [''m1'' \<mapsto> m1_state])"
  using qname_minimisation_fallback
          [of "request ''tld.'' TypeA" "\<lparr>Name = ''tld.'', Qtype = TypeA, Qclass = ClassINET\<rparr>"
              "[]" "UDPAddr [10, 0, 0, 9]" example_config example_lib t0 0
              "[''m1'' \<mapsto> m1_state]"]
        qname_minimisation_fallback
          [of "request ''tld.'' TypeA" "\<lparr>Name = ''tld.'', Qtype = TypeA, Qclass = ClassINET\<rparr>"
              "[]" "UDPAddr [10, 0, 0, 7]" example_config example_lib t0 0
              "[''m1'' \<mapsto> m1_state]"]
  by (simp add: request_fields tld_facts example_lib_fields)

section \<open>Rejection by the codec and the store\<close>

lemma two_fields_facts:
  "failure_mode (IsDomainName example_lib) (ToLower ''s-c0a80001.7f000001-abc-e.a.tld.'')"
  "HasPrefix (ToLower ''s-c0a80001.7f000001-abc-e.a.tld.'') ''s-''"
  "NewDNSQuery (\<lambda>name. False) ''s-c0a80001.7f000001-abc-e.a.tld.'' = (new_DNSQuery, Some BadStart)"
  "failure_mode (\<lambda>name. False) ''s-c0a80001.7f000001-abc-e.a.tld.''"
  by code_simp+

text \<open>
  Claim C8, as stated, has the responder drop every query whose name the codec
  rejects. The name \<open>tld.\<close> has no start tag and the codec rejects it, yet the
  responder answers the query, by the fallback of lines 346-374.
\<close>

theorem rejected_name_is_answered:
  "NewDNSQuery (IsDomainName example_lib) (ToLower ''tld.'') = (new_DNSQuery, Some NoStartTag)
   \<and> replies example_lib example_config Map.empty
       [(t0, 0, UDPAddr [10, 0, 0, 7], request ''tld.'' TypeA)] =
     Inr [Some [''tld. 0 IN A 203.0.113.5'']]"
  by code_simp

text \<open>A request with another opcode than QUERY gets the reply with no answer.\<close>

lemma handler_other_opcode:
  "Opcode r \<noteq> OpcodeQuery \<Longrightarrow>
   MakeRebindDNSHandler env appConfig now rnd remote dcss r = Inr (Some (SetReply r), dcss)"
  by (simp add: MakeRebindDNSHandler_def Let_def)

text \<open>
  Claim C8, amended. For a name in one of the listed failure modes the codec returns
  an error together with the empty record. The responder, asked for such a name,
  never inserts or modifies an entry of the store, and what it writes is this. For an
  A or AAAA question of a request with the opcode QUERY it writes no reply when the
  peer is on the ignore list or the name has the start tag; when the name has no
  start tag and the peer is not on the list it writes the reply of the fallback of
  lines 346-374, with one record of TTL 0 for the configured address, provided that
  address parses and the library accepts the text of the record, and no reply
  otherwise. For a question of another type, or another opcode, it writes the reply
  with an empty answer section (line 487).
\<close>

theorem codec_rejection:
  assumes "Question r = q # qs"
    and "failure_mode (IsDomainName env) (ToLower (Name q))"
  shows "(failure_mode isDomainName qname \<longrightarrow>
            (\<exists>e. NewDNSQuery isDomainName qname = (new_DNSQuery, Some e)))
     \<and> MakeRebindDNSHandler env appConfig now rnd remote dcss r =
         Inr (if Opcode r = OpcodeQuery \<and> (Qtype q = TypeA \<or> Qtype q = TypeAAAA)
              then if addrInIPAddressList remote (IgnoreDNSRequestFrom appConfig)
                      \<or> HasPrefix (ToLower (Name q)) ''s-''
                   then None
                   else (case ParseIP env (ResponseIPAddr_cfg appConfig) of
                           None \<Rightarrow> None
                         | Some address \<Rightarrow>
                            (case NewRR env (Name q @ '' 0 IN ''
                                       @ (if To4 address = None then ''AAAA'' else ''A'')
                                       @ '' '' @ ResponseIPAddr_cfg appConfig) of
                               None \<Rightarrow> None
                             | Some rr \<Rightarrow>
                                 Some \<lparr>Opcode = Opcode r, Question = [q], Answer = [rr]\<rparr>))
              else Some (SetReply r),
              dcss)"
proof -
  obtain e where "NewDNSQuery (IsDomainName env) (ToLower (Name q)) = (new_DNSQuery, Some e)"
    using assms(2) NewDNSQuery_failure_mode [of "IsDomainName env" "ToLower (Name q)"] by blast
  then have rejected:
    "encoded_query env appConfig now rnd dcss (SetReply r) q (ToLower (Name q)) =
       Inr (Return None, dcss)"
    by (rule encoded_query_rejected)
  have handler: "MakeRebindDNSHandler env appConfig now rnd remote dcss r =
         Inr (if Opcode r = OpcodeQuery \<and> (Qtype q = TypeA \<or> Qtype q = TypeAAAA)
              then if addrInIPAddressList remote (IgnoreDNSRequestFrom appConfig)
                      \<or> HasPrefix (ToLower (Name q)) ''s-''
                   then None
                   else (case ParseIP env (ResponseIPAddr_cfg appConfig) of
                           None \<Rightarrow> None
                         | Some address \<Rightarrow>
                            (case NewRR env (Name q @ '' 0 IN ''
                                       @ (if To4 address = None then ''AAAA'' else ''A'')
                                       @ '' '' @ ResponseIPAddr_cfg appConfig) of
                               None \<Rightarrow> None
                             | Some rr \<Rightarrow>
                                 Some \<lparr>Opcode = Opcode r, Question = [q], Answer = [rr]\<rparr>))
              else Some (SetReply r),
              dcss)"
  proof (cases "Opcode r = OpcodeQuery")
    case False
    then show ?thesis by (simp add: handler_other_opcode)
  next
    case True
    then show ?thesis
      using assms(1) rejected
      by (auto simp: handler_first_question handle_question_def qname_minimisation_def
                     Let_def SetReply_def
               split: option.splits)
  qed
  show ?thesis using handler NewDNSQuery_failure_mode [of isDomainName qname] by blast
qed

text \<open>A name with two fields instead of three, asked with the types A and MX.\<close>

theorem codec_rejection_witness:
  "failure_mode (\<lambda>name. False) ''s-c0a80001.7f000001-abc-e.a.tld.''
   \<and> NewDNSQuery (\<lambda>name. False) ''s-c0a80001.7f000001-abc-e.a.tld.'' =
       (new_DNSQuery, Some BadStart)
   \<and> MakeRebindDNSHandler example_lib example_config t0 0 (UDPAddr [10, 0, 0, 7])
       [''m1'' \<mapsto> m1_state] (request ''s-c0a80001.7f000001-abc-e.a.tld.'' TypeA) =
     Inr (None, [''m1'' \<mapsto> m1_state])
   \<and> MakeRebindDNSHandler example_lib example_config t0 0 (UDPAddr [10, 0, 0, 7])
       [''m1'' \<mapsto> m1_state] (request ''s-c0a80001.7f000001-abc-e.a.tld.'' 15) =
     Inr (Some (SetReply (request ''s-c0a80001.7f000001-abc-e.a.tld.'' 15)),
          [''m1'' \<mapsto> m1_state])"
  using codec_rejection
          [of "request ''s-c0a80001.7f000001-abc-e.a.tld.'' TypeA"
              "\<lparr>Name = ''s-c0a80001.7f000001-abc-e.a.tld.'', Qtype = TypeA, Qclass = ClassINET\<rparr>"
              "[]" example_lib "\<lambda>name. False" "''s-c0a80001.7f000001-abc-e.a.tld.''"
              example_config t0 0 "UDPAddr [10, 0, 0, 7]" "[''m1'' \<mapsto> m1_state]"]
        codec_rejection
          [of "request ''s-c0a80001.7f000001-abc-e.a.tld.'' 15"
              "\<lparr>Name = ''s-c0a80001.7f000001-abc-e.a.tld.'', Qtype = 15, Qclass = ClassINET\<rparr>"
              "[]" example_lib "\<lambda>name. False" "''s-c0a80001.7f000001-abc-e.a.tld.''"
              example_config t0 0 "UDPAddr [10, 0, 0, 7]" "[''m1'' \<mapsto> m1_state]"]
  by (auto simp: request_fields two_fields_facts TypeA_def TypeAAAA_def)

section \<open>A new session whose reply is given up\<close>















section \<open>The firewall latch\<close>

lemma step_keeps_sessions:
  assumes "\<not> is_sweep e" and "step env appConfig dcss e = Inr dcss1" and "dcss sk = Some sv"
  shows "\<exists>sv1. dcss1 sk = Some sv1"
proof (cases e)
  case (DNSRequest now rnd remote r)
  let ?res = "MakeRebindDNSHandler env appConfig now rnd remote dcss r"
  obtain out where res: "?res = Inr (out, dcss1)"
    using assms(2) DNSRequest by (auto split: sum.splits)
  have "responder_effect appConfig now dcss ?res" by (rule handler_effect)
  then have "dcss1 = dcss \<or> (\<exists>sid st1. dcss1 = dcss(sid \<mapsto> st1))"
    using res unfolding responder_effect_def by auto
  then show ?thesis using assms(3) by auto
next
  case (HTTPRequest now req)
  then show ?thesis
    using assms(2,3) root_handler_store [of "IsDomainName env" now dcss req] by auto
next
  case (ExpireTick clock duration)
  then show ?thesis using assms(1) by simp
qed

lemma kept_without_sweeps:
  assumes "index_in_cycle dcss" and "dcss session = Some st"
    and "list_all (\<lambda>e. \<not> is_sweep e) es"
  shows "session_kept env appConfig session dcss es"
  using assms
proof (induction es arbitrary: dcss st)
  case Nil
  then show ?case by simp
next
  case (Cons e es)
  obtain dcss1 where s: "step env appConfig dcss e = Inr dcss1" and i: "index_in_cycle dcss1"
    using step_index_in_cycle [of dcss env appConfig e] Cons.prems(1) by blast
  have "\<not> is_sweep e" using Cons.prems(3) by simp
  then obtain st1 where st1: "dcss1 session = Some st1"
    using step_keeps_sessions [of e env appConfig dcss dcss1 session st] s Cons.prems(2) by blast
  have "session_kept env appConfig session dcss1 es"
    using Cons.IH [of dcss1 st1] i st1 Cons.prems(3) by simp
  then show ?case using s st1 by simp
qed

lemma latched_while_kept:
  assumes "latched session target dcss" and "session_kept env appConfig session dcss es"
  shows "\<exists>dcss1. run env appConfig dcss es = Inr dcss1 \<and> latched session target dcss1"
  using assms
proof (induction es arbitrary: dcss)
  case Nil
  then show ?case by simp
next
  case (Cons e es)
  from Cons.prems(2) obtain dcss1 st1 where s: "step env appConfig dcss e = Inr dcss1"
    and p: "dcss1 session = Some st1" and k: "session_kept env appConfig session dcss1 es"
    by (auto split: sum.splits option.splits)
  have "latched session target dcss1"
    using step_latched [of session target dcss env appConfig e dcss1] Cons.prems(1) s p by auto
  then show ?case using Cons.IH [of dcss1] k s by simp
qed

lemma multi_a_answers:
  assumes "dcss session = Some st"
  shows "DNSRebindFromQueryMultiA session dcss q =
           Inr (if FirewalledOnce st = True then [ResponseReboundIPAddr st]
                else [ResponseIPAddr st, ResponseReboundIPAddr st], dcss)"
  using assms by (simp add: DNSRebindFromQueryMultiA_def)

lemma latched_m1_answers:
  "DNSRebindFromQueryMultiA ''m1'' [''m1'' \<mapsto> m1_state\<lparr>FirewalledOnce := True\<rparr>] q =
     Inr ([''127.0.0.1''], [''m1'' \<mapsto> m1_state\<lparr>FirewalledOnce := True\<rparr>])"
  by (simp add: DNSRebindFromQueryMultiA_def m1_state_def)

lemma swept_m1_answers:
  "replies example_lib example_config
       (ExpireOldEntries (\<lambda>sk. t0 + 60000000000) 30000000000
          [''m1'' \<mapsto> m1_state\<lparr>FirewalledOnce := True\<rparr>])
       [(t0 + 61000000000, 0, UDPAddr [10, 0, 0, 7],
           request ''s-c0a80001.7f000001-m1-ma-e.a.tld.'' TypeA)] =
     Inr [Some [''s-c0a80001.7f000001-m1-ma-e.a.tld. 10 IN A 192.168.0.1'',
                ''s-c0a80001.7f000001-m1-ma-e.a.tld. 0 IN A 127.0.0.1'']]"
  by code_simp

text \<open>
  Claim C1, as stated, has every multi-A query after the latch was set answered with
  the rebound target alone. The latch is a field of the session, and a sweep removes
  the session: for the session \<open>m1\<close> with the latch set the strategy answers with the
  target alone, but after a sweep that expires it, a multi-A query for \<open>m1\<close> creates
  the session anew and is answered with the attacker address and the target.
\<close>

theorem latch_is_lost_with_the_session:
  "DNSRebindFromQueryMultiA ''m1'' [''m1'' \<mapsto> m1_state\<lparr>FirewalledOnce := True\<rparr>]
       \<lparr>Name = ''s-c0a80001.7f000001-m1-ma-e.a.tld.'', Qtype = TypeA, Qclass = ClassINET\<rparr> =
     Inr ([''127.0.0.1''], [''m1'' \<mapsto> m1_state\<lparr>FirewalledOnce := True\<rparr>])
   \<and> replies example_lib example_config
       (ExpireOldEntries (\<lambda>sk. t0 + 60000000000) 30000000000
          [''m1'' \<mapsto> m1_state\<lparr>FirewalledOnce := True\<rparr>])
       [(t0 + 61000000000, 0, UDPAddr [10, 0, 0, 7],
           request ''s-c0a80001.7f000001-m1-ma-e.a.tld.'' TypeA)] =
     Inr [Some [''s-c0a80001.7f000001-m1-ma-e.a.tld. 10 IN A 192.168.0.1'',
                ''s-c0a80001.7f000001-m1-ma-e.a.tld. 0 IN A 127.0.0.1'']]"
  using latched_m1_answers swept_m1_answers by simp

text \<open>
  Claim C1, amended. For a session in the store the multi-A strategy answers with the
  rebound target alone when \<open>FirewalledOnce\<close> is set, and with the attacker address and
  the rebound target, in this order, when it is not. No request to the responder and
  no request to the catch-all route clears the flag or changes the target: after any
  run of events in which the session stays in the store, the flag is set, the target
  is the same and the strategy answers with the target alone. Only a sweep removes
  a session: in a run without sweeps, from a store with its round-robin indices in
  the cycle, every session stays.
\<close>

theorem firewall_latch:
  assumes "dcss session = Some st"
  shows "DNSRebindFromQueryMultiA session dcss q =
           Inr (if FirewalledOnce st = True then [ResponseReboundIPAddr st]
                else [ResponseIPAddr st, ResponseReboundIPAddr st], dcss)
     \<and> (FirewalledOnce st = True \<and> session_kept env appConfig session dcss es \<longrightarrow>
          (\<exists>dcss1 st1. run env appConfig dcss es = Inr dcss1 \<and> dcss1 session = Some st1
              \<and> FirewalledOnce st1 = True
              \<and> ResponseReboundIPAddr st1 = ResponseReboundIPAddr st
              \<and> DNSRebindFromQueryMultiA session dcss1 q =
                  Inr ([ResponseReboundIPAddr st], dcss1)))
     \<and> (index_in_cycle dcss \<and> list_all (\<lambda>e. \<not> is_sweep e) es \<longrightarrow>
          session_kept env appConfig session dcss es)"
proof -
  have kept: "FirewalledOnce st = True \<and> session_kept env appConfig session dcss es \<longrightarrow>
          (\<exists>dcss1 st1. run env appConfig dcss es = Inr dcss1 \<and> dcss1 session = Some st1
              \<and> FirewalledOnce st1 = True
              \<and> ResponseReboundIPAddr st1 = ResponseReboundIPAddr st
              \<and> DNSRebindFromQueryMultiA session dcss1 q =
                  Inr ([ResponseReboundIPAddr st], dcss1))"
  proof
    assume a: "FirewalledOnce st = True \<and> session_kept env appConfig session dcss es"
    then have "latched session (ResponseReboundIPAddr st) dcss"
      using assms by (simp add: latched_def)
    then obtain dcss1 where r: "run env appConfig dcss es = Inr dcss1"
      and l: "latched session (ResponseReboundIPAddr st) dcss1"
      using latched_while_kept [of session "ResponseReboundIPAddr st" dcss env appConfig es] a
      by blast
    from l obtain st1 where st1: "dcss1 session = Some st1" "FirewalledOnce st1 = True"
      "ResponseReboundIPAddr st1 = ResponseReboundIPAddr st"
      by (auto simp: latched_def)
    have "DNSRebindFromQueryMultiA session dcss1 q = Inr ([ResponseReboundIPAddr st], dcss1)"
      using multi_a_answers [of dcss1 session st1 q] st1 by simp
    then show "\<exists>dcss1 st1. run env appConfig dcss es = Inr dcss1 \<and> dcss1 session = Some st1
              \<and> FirewalledOnce st1 = True
              \<and> ResponseReboundIPAddr st1 = ResponseReboundIPAddr st
              \<and> DNSRebindFromQueryMultiA session dcss1 q =
                  Inr ([ResponseReboundIPAddr st], dcss1)"
      using r st1 by blast
  qed
  show ?thesis
    using multi_a_answers [of dcss session st q] assms kept
          kept_without_sweeps [of dcss session st es env appConfig]
    by blast
qed

text \<open>The latched session \<open>m1\<close>, a request to the catch-all route and a multi-A query.\<close>

theorem firewall_latch_witness:
  "DNSRebindFromQueryMultiA ''m1'' [''m1'' \<mapsto> m1_state\<lparr>FirewalledOnce := True\<rparr>]
       \<lparr>Name = ''s-c0a80001.7f000001-m1-ma-e.a.tld.'', Qtype = TypeA, Qclass = ClassINET\<rparr> =
     Inr ([''127.0.0.1''], [''m1'' \<mapsto> m1_state\<lparr>FirewalledOnce := True\<rparr>])
   \<and> session_kept example_lib example_config ''m1''
        [''m1'' \<mapsto> m1_state\<lparr>FirewalledOnce := True\<rparr>]
        [HTTPRequest (t0 + 4000000000)
           \<lparr>Method = ''GET'', Host = ''s-c0a80001.7f000001-m1-ma-e.a.tld'',
            RemoteAddr = ''10.0.0.7:5000''\<rparr>,
         DNSRequest (t0 + 5000000000) 0 (UDPAddr [10, 0, 0, 7])
           (request ''s-c0a80001.7f000001-m1-ma-e.a.tld.'' TypeA)]
   \<and> (\<exists>dcss1 st1.
         run example_lib example_config [''m1'' \<mapsto> m1_state\<lparr>FirewalledOnce := True\<rparr>]
           [HTTPRequest (t0 + 4000000000)
              \<lparr>Method = ''GET'', Host = ''s-c0a80001.7f000001-m1-ma-e.a.tld'',
               RemoteAddr = ''10.0.0.7:5000''\<rparr>,
            DNSRequest (t0 + 5000000000) 0 (UDPAddr [10, 0, 0, 7])
              (request ''s-c0a80001.7f000001-m1-ma-e.a.tld.'' TypeA)] = Inr dcss1
         \<and> dcss1 ''m1'' = Some st1 \<and> FirewalledOnce st1 = True
         \<and> ResponseReboundIPAddr st1 = ''127.0.0.1''
         \<and> DNSRebindFromQueryMultiA ''m1'' dcss1
              \<lparr>Name = ''s-c0a80001.7f000001-m1-ma-e.a.tld.'', Qtype = TypeA,
               Qclass = ClassINET\<rparr> = Inr ([''127.0.0.1''], dcss1))"
proof -
  let ?S = "[''m1'' \<mapsto> m1_state\<lparr>FirewalledOnce := True\<rparr>]"
  let ?es = "[HTTPRequest (t0 + 4000000000)
           \<lparr>Method = ''GET'', Host = ''s-c0a80001.7f000001-m1-ma-e.a.tld'',
            RemoteAddr = ''10.0.0.7:5000''\<rparr>,
         DNSRequest (t0 + 5000000000) 0 (UDPAddr [10, 0, 0, 7])
           (request ''s-c0a80001.7f000001-m1-ma-e.a.tld.'' TypeA)]"
  let ?q = "\<lparr>Name = ''s-c0a80001.7f000001-m1-ma-e.a.tld.'', Qtype = TypeA, Qclass = ClassINET\<rparr>"
  have inv: "index_in_cycle ?S" by (simp add: index_in_cycle_def m1_state_def)
  have here: "?S ''m1'' = Some (m1_state\<lparr>FirewalledOnce := True\<rparr>)" by simp
  note latch = firewall_latch
    [of ?S "''m1''" "m1_state\<lparr>FirewalledOnce := True\<rparr>" ?q example_lib example_config ?es]
  have kept: "session_kept example_lib example_config ''m1'' ?S ?es"
    using latch here inv by simp
  show ?thesis
    using latch here kept by (simp add: m1_state_def)
qed

section \<open>The first-then-second strategy\<close>

text \<open>
  The strategy compares the difference of the two stored time stamps with the timeout,
  as the first half of claim C3 says (for a timeout whose nanoseconds fit a
  duration). The responder stamps both fields with the same time, after the
  strategy has run, so that the strategy of the next query finds the difference 0.
\<close>

lemma int64_seconds:
  "- 9223372036 \<le> n \<Longrightarrow> n \<le> 9223372036 \<Longrightarrow> int64 (Second * n) = 1000000000 * n"
  by (simp add: int64_def Second_def)

lemma first_then_second_answers:
  assumes "dcss session = Some st"
    and "- 9223372036 \<le> ResponseReboundIPAddrtimeOut st"
    and "ResponseReboundIPAddrtimeOut st \<le> 9223372036"
  shows "DNSRebindFromQueryFirstThenSecond session dcss q =
           Inr ([if CurrentQueryTime st - LastQueryTime st
                      < 1000000000 * ResponseReboundIPAddrtimeOut st
                 then ResponseReboundIPAddr st else ResponseIPAddr st], dcss)"
proof -
  let ?d = "1000000000 * ResponseReboundIPAddrtimeOut st"
  have "minDuration < ?d" and "?d \<le> maxDuration"
    using assms(2,3) by (simp_all add: minDuration_def maxDuration_def)
  then have "(Sub (CurrentQueryTime st) (LastQueryTime st) < ?d) =
               (CurrentQueryTime st - LastQueryTime st < ?d)"
    by (rule Sub_lt_iff)
  then show ?thesis
    using assms by (simp add: DNSRebindFromQueryFirstThenSecond_def Let_def int64_seconds)
qed

lemma stamped_session_gets_target:
  assumes "dcss session = Some st"
    and "CurrentQueryTime st = LastQueryTime st"
    and "0 < ResponseReboundIPAddrtimeOut st"
    and "ResponseReboundIPAddrtimeOut st \<le> 9223372036"
  shows "DNSRebindFromQueryFirstThenSecond session dcss q =
           Inr ([ResponseReboundIPAddr st], dcss)"
  using first_then_second_answers [of dcss session st q] assms by simp

text \<open>
  Claim C3. A query that arrives after the timeout has passed since the previous query
  is to be answered with the attacker address. With the timeout of 30 seconds, the
  second query of the session \<open>abc\<close>, 100 seconds after the first, is answered with the
  rebound target \<open>127.0.0.1\<close>.
\<close>

theorem second_query_after_timeout_gets_target:
  "ResponseReboundIPAddrtimeOut_cfg example_config = 30
   \<and> replies example_lib example_config Map.empty
       [(t0, 0, UDPAddr [10, 0, 0, 7],
           request ''s-c0a80001.7f000001-abc-fs-e.attacker.tld.'' TypeA),
        (t0 + 100000000000, 0, UDPAddr [10, 0, 0, 7],
           request ''s-c0a80001.7f000001-abc-fs-e.attacker.tld.'' TypeA)] =
     Inr [Some [''s-c0a80001.7f000001-abc-fs-e.attacker.tld. 0 IN A 192.168.0.1''],
          Some [''s-c0a80001.7f000001-abc-fs-e.attacker.tld. 0 IN A 127.0.0.1'']]"
  by code_simp

end
